theory Spec2Isabelle
  imports Complex_Main
begin

section \<open>Strings as the client uses them\<close>

text \<open>
  JavaScript strings are modelled as HOL strings (character lists). The three string
  methods the components call are written out as recursive functions:
  \<^verbatim>\<open>s.startsWith(p)\<close>, \<^verbatim>\<open>s.endsWith(p)\<close> and \<^verbatim>\<open>s.includes(p)\<close>.
\<close>

fun startsWith :: "string \<Rightarrow> string \<Rightarrow> bool" where
  "startsWith s [] = True"
| "startsWith [] (p # ps) = False"
| "startsWith (c # cs) (p # ps) = (c = p \<and> startsWith cs ps)"

definition endsWith :: "string \<Rightarrow> string \<Rightarrow> bool" where
  "endsWith s p = startsWith (rev s) (rev p)"

fun includesStr :: "string \<Rightarrow> string \<Rightarrow> bool" where
  "includesStr [] p = (p = [])"
| "includesStr (c # cs) p = (startsWith (c # cs) p \<or> includesStr cs p)"

text \<open>\<^verbatim>\<open>s.slice(1)\<close>: the string without its first character (empty stays empty).\<close>

definition slice1 :: "string \<Rightarrow> string" where
  "slice1 s = drop 1 s"

text \<open>A string is falsy in JavaScript exactly when it is empty.\<close>

definition truthy :: "string \<Rightarrow> bool" where
  "truthy s = (s \<noteq> [])"

section \<open>lib/apiConfig: the API base and \<open>getApiUrl\<close>\<close>

text \<open>
  \<^verbatim>\<open>API_BASE_URL = process.env.NEXT_PUBLIC_API_BASE_URL || "http://localhost:8080/api"\<close>.
  The environment variable is the parameter: \<open>None\<close> when it is not set.
\<close>

definition API_BASE_URL :: "string option \<Rightarrow> string" where
  "API_BASE_URL env =
     (case env of
        None \<Rightarrow> ''http://localhost:8080/api''
      | Some v \<Rightarrow> if truthy v then v else ''http://localhost:8080/api'')"

definition getApiUrl :: "string option \<Rightarrow> string \<Rightarrow> string" where
  "getApiUrl env endpoint =
     (let cleanEndpoint = (if startsWith endpoint ''/'' then slice1 endpoint else endpoint);
          baseUrl = (if endsWith (API_BASE_URL env) ''/api''
                     then API_BASE_URL env
                     else API_BASE_URL env @ ''/api'')
      in baseUrl @ ''/'' @ cleanEndpoint)"

section \<open>The session provider and the network\<close>

text \<open>
  An awaited promise either rejects (the \<^verbatim>\<open>await\<close> throws) or resolves to a value.
\<close>

datatype 'a promise = Rejected | Resolved 'a

text \<open>
  Parsed JSON, for the places where the code inspects a body of unknown shape
  (\<^verbatim>\<open>Array.isArray\<close>). A number is the rational value of the parsed number.
\<close>

datatype json =
    JNull
  | JBool bool
  | JNum rat
  | JStr string
  | JArr "json list"
  | JObj "(string \<times> json) list"

text \<open>
  The arguments of \<^verbatim>\<open>fetch\<close>. The query is kept as the list of parameters given to
  \<^verbatim>\<open>URLSearchParams\<close>, the body as the value given to \<^verbatim>\<open>JSON.stringify\<close>;
  \<open>req_credentials\<close> and \<open>req_body\<close> are \<open>None\<close> when the option is not given.
\<close>

record request =
  req_url :: string
  req_query :: "(string \<times> string) list"
  req_method :: string
  req_headers :: "(string \<times> string) list"
  req_credentials :: "string option"
  req_body :: "json option"

text \<open>
  What the code reads of a \<^verbatim>\<open>Response\<close>: \<^verbatim>\<open>status\<close>, \<^verbatim>\<open>ok\<close>,
  \<^verbatim>\<open>headers.get("content-type")\<close> (\<open>None\<close> for \<^verbatim>\<open>null\<close>), \<^verbatim>\<open>text()\<close> and
  \<^verbatim>\<open>json()\<close>, which rejects when the body is not JSON. The type of the parsed body is
  a parameter: \<open>json\<close> where the code tests the shape itself, a record where the code
  relies on a TypeScript type.
\<close>

record 'b response =
  resp_status :: nat
  resp_ok :: bool
  resp_contentType :: "string option"
  resp_text :: string
  resp_json :: "'b promise"

text \<open>
  \<^verbatim>\<open>supabase.auth.getSession()\<close> followed by \<^verbatim>\<open>session?.access_token\<close>: the await
  may reject; the token is \<open>None\<close> when there is no session.
\<close>

type_synonym session = "string option promise"

text \<open>\<^verbatim>\<open>token ? `Bearer ${token}` : ''\<close> on a token that may be undefined.\<close>

definition bearer :: "string option \<Rightarrow> string" where
  "bearer token =
     (case token of
        None \<Rightarrow> []
      | Some t \<Rightarrow> if truthy t then ''Bearer '' @ t else [])"

text \<open>\<^verbatim>\<open>getAuthToken\<close>: \<^verbatim>\<open>session?.access_token || ""\<close>.\<close>

definition getAuthToken :: "session \<Rightarrow> string promise" where
  "getAuthToken sess =
     (case sess of
        Rejected \<Rightarrow> Rejected
      | Resolved None \<Rightarrow> Resolved []
      | Resolved (Some t) \<Rightarrow> Resolved (if truthy t then t else []))"

text \<open>\<^verbatim>\<open>createAuthHeaders\<close>, the same function in every component that has it.\<close>

definition createAuthHeaders :: "string \<Rightarrow> (string \<times> string) list" where
  "createAuthHeaders token =
     [(''Authorization'', if truthy token then ''Bearer '' @ token else []),
      (''Content-Type'', ''application/json'')]"

text \<open>Decimal digits of a natural number, as a template string prints it.\<close>

fun showNat :: "nat \<Rightarrow> string" where
  "showNat n =
     (if n < 10 then [''0123456789'' ! n]
      else showNat (n div 10) @ [''0123456789'' ! (n mod 10)])"

section \<open>app/page: the cart count\<close>

definition EMPTY_CART_STATUS :: nat where
  "EMPTY_CART_STATUS = 204"

definition cartRequest :: "string option \<Rightarrow> string option \<Rightarrow> request" where
  "cartRequest env token =
     \<lparr>req_url = getApiUrl env ''export-cart'', req_query = [], req_method = ''GET'',
      req_headers = [(''Authorization'', bearer token), (''Content-Type'', ''application/json'')],
      req_credentials = Some ''include'', req_body = None\<rparr>"

text \<open>\<^verbatim>\<open>Array.isArray(cartData) ? cartData.length : 0\<close>\<close>

definition arrayLength :: "json \<Rightarrow> nat" where
  "arrayLength cartData = (case cartData of JArr xs \<Rightarrow> length xs | _ \<Rightarrow> 0)"

text \<open>
  \<^verbatim>\<open>fetchCartCount\<close>. The result is the new value of the \<open>cartCount\<close> state, given its
  old value, the session and the network. Every \<^verbatim>\<open>catch\<close> sets the count to 0. The
  inner \<^verbatim>\<open>else if (response.ok)\<close> has no \<^verbatim>\<open>else\<close>: there the state would stay as it
  was.
\<close>

definition fetchCartCount ::
  "string option \<Rightarrow> session \<Rightarrow> (request \<Rightarrow> json response promise) \<Rightarrow> nat \<Rightarrow> nat" where
  "fetchCartCount env sess net cartCount =
     (case sess of
        Rejected \<Rightarrow> 0
      | Resolved token \<Rightarrow>
          (case net (cartRequest env token) of
             Rejected \<Rightarrow> 0
           | Resolved response \<Rightarrow>
               if resp_status response = 204 \<or> \<not> resp_ok response then 0
               else if resp_ok response then
                 (case resp_contentType response of
                    None \<Rightarrow> 0
                  | Some contentType \<Rightarrow>
                      if truthy contentType \<and> includesStr contentType ''application/json''
                      then (case resp_json response of
                              Rejected \<Rightarrow> 0
                            | Resolved cartData \<Rightarrow> arrayLength cartData)
                      else 0)
               else cartCount))"

text \<open>\<^verbatim>\<open>parseCartResponse\<close>, the helper with the same decision on a response.\<close>

definition parseCartResponse :: "json response \<Rightarrow> nat" where
  "parseCartResponse response =
     (if resp_status response = EMPTY_CART_STATUS \<or> \<not> resp_ok response then 0
      else (case resp_contentType response of
              None \<Rightarrow> 0
            | Some contentType \<Rightarrow>
                if \<not> truthy contentType \<or> \<not> includesStr contentType ''application/json'' then 0
                else (case resp_json response of
                        Rejected \<Rightarrow> 0
                      | Resolved cartData \<Rightarrow> arrayLength cartData)))"

section \<open>components/tariff-trends-visualization: \<open>handleFilterChange\<close>\<close>

record DateRange =
  dr_start :: string
  dr_end :: string

record FilterSelection =
  exportCountries :: "string list"
  importCountries :: "string list"
  products :: "string list"
  dateRange :: DateRange

record TariffDataPoint =
  dp_date :: string
  dp_tariffRate :: rat

record TariffSeries =
  ts_id :: string
  ts_importCountry :: string
  ts_exportCountry :: string
  ts_product :: string
  ts_data :: "TariffDataPoint list"
  ts_color :: string

text \<open>The series and the body of the trends endpoint, as the code reads them.\<close>

record BackendPoint =
  bp_date :: string
  bp_rate :: rat

record BackendSeries =
  bs_importCountry :: string
  bs_exportCountry :: string
  bs_product :: string
  bs_dataPoints :: "BackendPoint list"

record TrendsResult =
  tr_success :: bool
  tr_data :: "BackendSeries list option"
  tr_error :: "string option"

record TrendsState =
  filters :: FilterSelection
  chartData :: "TariffSeries list"
  loading :: bool
  trends_error :: "string option"

definition MAX_LINES :: nat where
  "MAX_LINES = 10"

definition colors :: "string list" where
  "colors = [''#3b82f6'', ''#10b981'', ''#f59e0b'', ''#ef4444'', ''#8b5cf6'',
             ''#ec4899'', ''#14b8a6'', ''#f97316'', ''#06b6d4'', ''#84cc16'']"

text \<open>\<^verbatim>\<open>xs.join(',')\<close>\<close>

fun joinComma :: "string list \<Rightarrow> string" where
  "joinComma [] = []"
| "joinComma [x] = x"
| "joinComma (x # y # ys) = x @ '','' @ joinComma (y # ys)"

definition formatSeries :: "nat \<Rightarrow> BackendSeries \<Rightarrow> TariffSeries" where
  "formatSeries index series =
     \<lparr>ts_id = bs_importCountry series @ ''-'' @ bs_exportCountry series @ ''-'' @ bs_product series,
      ts_importCountry = bs_importCountry series,
      ts_exportCountry = bs_exportCountry series,
      ts_product = bs_product series,
      ts_data = map (\<lambda>point. \<lparr>dp_date = bp_date point, dp_tariffRate = bp_rate point\<rparr>)
                    (bs_dataPoints series),
      ts_color = colors ! (index mod length colors)\<rparr>"

definition formatTariffSeriesData :: "BackendSeries list \<Rightarrow> TariffSeries list" where
  "formatTariffSeriesData data = map (\<lambda>(index, series). formatSeries index series) (enumerate 0 data)"

definition trendsRequest :: "string option \<Rightarrow> string \<Rightarrow> FilterSelection \<Rightarrow> request" where
  "trendsRequest env token fs =
     \<lparr>req_url = getApiUrl env ''tariff-trends'',
      req_query = [(''startDate'', dr_start (dateRange fs)),
                   (''endDate'', dr_end (dateRange fs)),
                   (''importCountries'', joinComma (importCountries fs)),
                   (''exportCountries'', joinComma (exportCountries fs)),
                   (''products'', joinComma (products fs))],
      req_method = ''GET'',
      req_headers = createAuthHeaders token,
      req_credentials = Some ''include'',
      req_body = None\<rparr>"

text \<open>
  \<^verbatim>\<open>fetchTariffTrendsData\<close>: the series, or \<open>Rejected\<close> where the code throws, together
  with the requests it has sent (none when the session provider rejects).
\<close>

definition fetchTariffTrendsData ::
  "string option \<Rightarrow> session \<Rightarrow> (request \<Rightarrow> TrendsResult response promise) \<Rightarrow> FilterSelection
     \<Rightarrow> TariffSeries list promise \<times> request list" where
  "fetchTariffTrendsData env sess net fs =
     (case getAuthToken sess of
        Rejected \<Rightarrow> (Rejected, [])
      | Resolved token \<Rightarrow>
          (let rq = trendsRequest env token fs in
           case net rq of
             Rejected \<Rightarrow> (Rejected, [rq])
           | Resolved response \<Rightarrow>
               if \<not> resp_ok response then (Rejected, [rq])
               else (case resp_json response of
                       Rejected \<Rightarrow> (Rejected, [rq])
                     | Resolved result \<Rightarrow>
                         if \<not> tr_success result then (Rejected, [rq])
                         else (case tr_data result of
                                 None \<Rightarrow> (Rejected, [rq])
                               | Some d \<Rightarrow> (Resolved (formatTariffSeriesData d), [rq])))))"

text \<open>
  \<^verbatim>\<open>handleFilterChange\<close>: the state after the handler has run, and the requests sent.
\<close>

definition handleFilterChange ::
  "string option \<Rightarrow> session \<Rightarrow> (request \<Rightarrow> TrendsResult response promise) \<Rightarrow> FilterSelection
     \<Rightarrow> TrendsState \<Rightarrow> TrendsState \<times> request list" where
  "handleFilterChange env sess net newFilters st =
     (let st1 = st\<lparr>filters := newFilters, trends_error := None\<rparr> in
      if length (importCountries newFilters) = 0 \<or> length (exportCountries newFilters) = 0
         \<or> length (products newFilters) = 0
      then (st1\<lparr>trends_error := Some ''Please fill in all the boxes'', chartData := []\<rparr>, [])
      else
        (let totalLines = length (importCountries newFilters) * length (exportCountries newFilters)
                            * length (products newFilters) in
         if totalLines > MAX_LINES
         then (st1\<lparr>trends_error :=
                      Some (''Too many combinations ('' @ showNat totalLines
                            @ '' lines). Please reduce selections to create '' @ showNat MAX_LINES
                            @ '' or fewer lines for optimal readability.''),
                    chartData := []\<rparr>, [])
         else
           (let st2 = st1\<lparr>loading := True\<rparr> in
            case fetchTariffTrendsData env sess net newFilters of
              (Resolved data, sent) \<Rightarrow> (st2\<lparr>chartData := data, loading := False\<rparr>, sent)
            | (Rejected, sent) \<Rightarrow>
                (st2\<lparr>trends_error := Some ''Unable to load tariff data. Please try again later.'',
                      chartData := [], loading := False\<rparr>, sent))))"

section \<open>JavaScript numbers\<close>

text \<open>
  A JavaScript number is \<open>NaN\<close>, an infinity or a finite value, written as the rational
  it denotes. Comparisons are exact, and false as soon as one side is \<open>NaN\<close>. Arithmetic
  rounds its exact result to a number: the rounding \<open>rnd\<close> is a parameter of every
  operation (for IEEE doubles it is round-to-nearest, with overflow to an infinity), so
  that what is proved holds for every rounding. Negative zero is not distinguished from
  zero.
\<close>

datatype jsnum = NaN | NegInf | Fin rat | PosInf

fun jsRank :: "jsnum \<Rightarrow> nat \<times> rat" where
  "jsRank NegInf = (0, 0)"
| "jsRank (Fin x) = (1, x)"
| "jsRank PosInf = (2, 0)"
| "jsRank NaN = (3, 0)"

definition jsLess :: "jsnum \<Rightarrow> jsnum \<Rightarrow> bool" where
  "jsLess a b \<longleftrightarrow>
     a \<noteq> NaN \<and> b \<noteq> NaN
     \<and> (fst (jsRank a) < fst (jsRank b)
        \<or> (fst (jsRank a) = fst (jsRank b) \<and> snd (jsRank a) < snd (jsRank b)))"

definition jsLessEq :: "jsnum \<Rightarrow> jsnum \<Rightarrow> bool" where
  "jsLessEq a b \<longleftrightarrow> a \<noteq> NaN \<and> b \<noteq> NaN \<and> (jsLess a b \<or> a = b)"

definition jsGreater :: "jsnum \<Rightarrow> jsnum \<Rightarrow> bool" where
  "jsGreater a b \<longleftrightarrow> jsLess b a"

definition jsGreaterEq :: "jsnum \<Rightarrow> jsnum \<Rightarrow> bool" where
  "jsGreaterEq a b \<longleftrightarrow> jsLessEq b a"

definition isNaN :: "jsnum \<Rightarrow> bool" where
  "isNaN a \<longleftrightarrow> a = NaN"

fun jsSign :: "jsnum \<Rightarrow> int" where
  "jsSign NegInf = -1"
| "jsSign PosInf = 1"
| "jsSign (Fin x) = (if x < 0 then -1 else if x = 0 then 0 else 1)"
| "jsSign NaN = 0"

definition signedInf :: "int \<Rightarrow> jsnum" where
  "signedInf s = (if s = 0 then NaN else if s > 0 then PosInf else NegInf)"

fun jsMul :: "(rat \<Rightarrow> jsnum) \<Rightarrow> jsnum \<Rightarrow> jsnum \<Rightarrow> jsnum" where
  "jsMul rnd NaN b = NaN"
| "jsMul rnd a NaN = NaN"
| "jsMul rnd (Fin x) (Fin y) = rnd (x * y)"
| "jsMul rnd a b = signedInf (jsSign a * jsSign b)"

fun jsAdd :: "(rat \<Rightarrow> jsnum) \<Rightarrow> jsnum \<Rightarrow> jsnum \<Rightarrow> jsnum" where
  "jsAdd rnd NaN b = NaN"
| "jsAdd rnd a NaN = NaN"
| "jsAdd rnd (Fin x) (Fin y) = rnd (x + y)"
| "jsAdd rnd PosInf NegInf = NaN"
| "jsAdd rnd NegInf PosInf = NaN"
| "jsAdd rnd (Fin x) b = b"
| "jsAdd rnd a b = a"

fun jsDiv :: "(rat \<Rightarrow> jsnum) \<Rightarrow> jsnum \<Rightarrow> jsnum \<Rightarrow> jsnum" where
  "jsDiv rnd NaN b = NaN"
| "jsDiv rnd a NaN = NaN"
| "jsDiv rnd (Fin x) (Fin y) = (if y = 0 then signedInf (jsSign (Fin x)) else rnd (x / y))"
| "jsDiv rnd (Fin x) b = Fin 0"
| "jsDiv rnd a (Fin y) = signedInf (jsSign a * (if y < 0 then -1 else 1))"
| "jsDiv rnd a b = NaN"

text \<open>
  \<^verbatim>\<open>Number.parseFloat\<close>: leading white space is skipped, then the longest prefix that is
  a decimal literal (sign, digits, fraction, exponent) or a signed \<open>Infinity\<close> is read;
  \<open>NaN\<close> when there is none. Of the white space of JavaScript only the ASCII characters
  are skipped here (space, tab, line feed, vertical tab, form feed, carriage return), not
  the no-break space, the byte order mark, the line and paragraph separators or the other
  space separators of Unicode: a string that starts with one of those reads as \<open>NaN\<close>
  here and as a number in JavaScript.
\<close>

definition isWhite :: "char \<Rightarrow> bool" where
  "isWhite c \<longleftrightarrow> c \<in> set [CHR '' '', CHR 0x09, CHR 0x0A, CHR 0x0B, CHR 0x0C, CHR 0x0D]"

definition isDigit :: "char \<Rightarrow> bool" where
  "isDigit c \<longleftrightarrow> c \<in> set ''0123456789''"

definition digitVal :: "char \<Rightarrow> nat" where
  "digitVal c = of_char c - 48"

definition digitsVal :: "string \<Rightarrow> nat" where
  "digitsVal ds = foldl (\<lambda>acc c. 10 * acc + digitVal c) 0 ds"

text \<open>An optional sign: whether it is a minus, and the rest.\<close>

definition readSign :: "string \<Rightarrow> bool \<times> string" where
  "readSign s =
     (case s of
        [] \<Rightarrow> (False, [])
      | c # cs \<Rightarrow> if c = CHR ''-'' then (True, cs)
                  else if c = CHR ''+'' then (False, cs) else (False, s))"

text \<open>The exponent part at the head of a string; 0 when there is none.\<close>

definition readExponent :: "string \<Rightarrow> int" where
  "readExponent s =
     (case s of
        [] \<Rightarrow> 0
      | c # cs \<Rightarrow>
          if c = CHR ''e'' \<or> c = CHR ''E'' then
            (let (neg, r) = readSign cs; ds = takeWhile isDigit r in
             if ds = [] then 0
             else if neg then - int (digitsVal ds) else int (digitsVal ds))
          else 0)"

definition scale10 :: "rat \<Rightarrow> int \<Rightarrow> rat" where
  "scale10 m ex = (if ex \<ge> 0 then m * 10 ^ nat ex else m / 10 ^ nat (- ex))"

definition parseFloat :: "(rat \<Rightarrow> jsnum) \<Rightarrow> string \<Rightarrow> jsnum" where
  "parseFloat rnd input =
     (let (neg, s) = readSign (dropWhile isWhite input) in
      if startsWith s ''Infinity'' then (if neg then NegInf else PosInf)
      else
        (let ip = takeWhile isDigit s;
             r1 = dropWhile isDigit s;
             (fp, r2) = (case r1 of
                           [] \<Rightarrow> ([], [])
                         | c # cs \<Rightarrow> if c = CHR ''.''
                                     then (takeWhile isDigit cs, dropWhile isDigit cs)
                                     else ([], r1))
         in if ip = [] \<and> fp = [] then NaN
            else
              (let m = of_nat (digitsVal (ip @ fp)) / 10 ^ length fp;
                   v = scale10 m (readExponent r2)
               in rnd (if neg then - v else v))))"

section \<open>components/tariff-definitions-table: validation of the new-tariff form\<close>

record NewTariff =
  nt_product :: string
  nt_exportingFrom :: string
  nt_importingTo :: string
  nt_type :: string
  nt_rate :: string
  nt_effectiveDate :: string
  nt_expirationDate :: string

record AlertDialog =
  alert_open :: bool
  alert_title :: string
  alert_message :: string

definition MINIMUM_RATE :: jsnum where
  "MINIMUM_RATE = Fin 0"

definition showAlert :: "string \<Rightarrow> string \<Rightarrow> AlertDialog" where
  "showAlert title message = \<lparr>alert_open = True, alert_title = title, alert_message = message\<rparr>"

text \<open>
  Each validator returns its verdict and the alert dialog after it: the dialog given
  when it accepts, the alert it shows when it rejects.
\<close>

definition validateAllFieldsFilled :: "NewTariff \<Rightarrow> AlertDialog \<Rightarrow> bool \<times> AlertDialog" where
  "validateAllFieldsFilled newTariff al =
     (if \<not> truthy (nt_product newTariff) \<or> \<not> truthy (nt_exportingFrom newTariff)
         \<or> \<not> truthy (nt_importingTo newTariff) \<or> \<not> truthy (nt_type newTariff)
         \<or> \<not> truthy (nt_rate newTariff) \<or> \<not> truthy (nt_effectiveDate newTariff)
         \<or> \<not> truthy (nt_expirationDate newTariff)
      then (False, showAlert ''Incomplete Information''
                     ''Please fill in all required fields before submitting.'')
      else (True, al))"

definition validateRate :: "(rat \<Rightarrow> jsnum) \<Rightarrow> NewTariff \<Rightarrow> AlertDialog \<Rightarrow> bool \<times> AlertDialog" where
  "validateRate rnd newTariff al =
     (let rateValue = parseFloat rnd (nt_rate newTariff) in
      if isNaN rateValue \<or> jsLess rateValue MINIMUM_RATE
      then (False, showAlert ''Invalid Rate''
                     ''Please enter a valid positive number for the tariff rate.'')
      else (True, al))"

definition validateCountryPair :: "NewTariff \<Rightarrow> AlertDialog \<Rightarrow> bool \<times> AlertDialog" where
  "validateCountryPair newTariff al =
     (if nt_exportingFrom newTariff = nt_importingTo newTariff
      then (False, showAlert ''Invalid Country Pair''
                     ''Exporting and importing countries must be different.'')
      else (True, al))"

text \<open>
  \<^verbatim>\<open>validateAllFieldsFilled() && validateRate() && validateCountryPair()\<close>: a validator
  runs only when those before it have accepted.
\<close>

definition validateTariffInput :: "(rat \<Rightarrow> jsnum) \<Rightarrow> NewTariff \<Rightarrow> AlertDialog \<Rightarrow> bool \<times> AlertDialog" where
  "validateTariffInput rnd newTariff al =
     (case validateAllFieldsFilled newTariff al of
        (False, al1) \<Rightarrow> (False, al1)
      | (True, al1) \<Rightarrow>
          (case validateRate rnd newTariff al1 of
             (False, al2) \<Rightarrow> (False, al2)
           | (True, al2) \<Rightarrow> validateCountryPair newTariff al2))"

section \<open>components/results-table: errors of adding to the export cart\<close>





text \<open>\<^verbatim>\<open>a || b\<close> for an optional string \<open>a\<close>.\<close>

definition orElse :: "string option \<Rightarrow> string \<Rightarrow> string" where
  "orElse a b = (case a of None \<Rightarrow> b | Some s \<Rightarrow> if truthy s then s else b)"





section \<open>Loading the currencies\<close>

record Currency =
  cur_code :: string
  cur_name :: string
  cur_rate :: rat
  cur_lastUpdated :: string

text \<open>
  The static list; \<open>today\<close> is \<^verbatim>\<open>new Date().toISOString().split("T")[0]\<close>. Both
  components declare the same list.
\<close>

definition FALLBACK_CURRENCIES :: "string \<Rightarrow> Currency list" where
  "FALLBACK_CURRENCIES today =
     [\<lparr>cur_code = ''USD'', cur_name = ''United States Dollar'', cur_rate = 1, cur_lastUpdated = today\<rparr>,
      \<lparr>cur_code = ''SGD'', cur_name = ''Singapore Dollar'', cur_rate = 135 / 100, cur_lastUpdated = today\<rparr>,
      \<lparr>cur_code = ''EUR'', cur_name = ''Euro'', cur_rate = 93 / 100, cur_lastUpdated = today\<rparr>,
      \<lparr>cur_code = ''CNY'', cur_name = ''Chinese Yuan'', cur_rate = 712 / 100, cur_lastUpdated = today\<rparr>]"

text \<open>
  The body of the currencies endpoint: \<open>pl_currency\<close> is \<open>Some list\<close> when
  \<^verbatim>\<open>Array.isArray(payload?.currency)\<close> holds, with the elements read as the TypeScript
  type the code casts them to, and \<open>None\<close> otherwise.
\<close>

record CurrencyPayload =
  pl_currency :: "Currency list option"

definition currenciesRequest :: "string option \<Rightarrow> string \<Rightarrow> request" where
  "currenciesRequest env token =
     \<lparr>req_url = getApiUrl env ''tariffs/currencies'', req_query = [], req_method = ''GET'',
      req_headers = createAuthHeaders token, req_credentials = Some ''include'',
      req_body = None\<rparr>"

text \<open>
  The part of \<^verbatim>\<open>loadCurrencies\<close> inside \<^verbatim>\<open>try\<close> up to the first state update, the same
  in both components: the fetched list, or \<open>Rejected\<close> where the code throws.
\<close>

definition fetchCurrencies ::
  "string option \<Rightarrow> session \<Rightarrow> (request \<Rightarrow> CurrencyPayload response promise) \<Rightarrow> Currency list promise" where
  "fetchCurrencies env sess net =
     (case getAuthToken sess of
        Rejected \<Rightarrow> Rejected
      | Resolved token \<Rightarrow>
          (case net (currenciesRequest env token) of
             Rejected \<Rightarrow> Rejected
           | Resolved response \<Rightarrow>
               if \<not> resp_ok response then Rejected
               else (case resp_json response of
                       Rejected \<Rightarrow> Rejected
                     | Resolved payload \<Rightarrow>
                         (let currencies = (case pl_currency payload of None \<Rightarrow> [] | Some cs \<Rightarrow> cs)
                          in if length currencies = 0 then Rejected else Resolved currencies))))"

text \<open>
  \<^verbatim>\<open>currencies[0].code\<close>. The list is never empty where the code reads it: an empty
  list makes the \<^verbatim>\<open>try\<close> block throw before any state update. The \<open>None\<close> of the
  empty list stands for the undefined value the read could not give.
\<close>

definition firstCode :: "Currency list \<Rightarrow> string option" where
  "firstCode cs = (case cs of [] \<Rightarrow> None | c # _ \<Rightarrow> Some (cur_code c))"

subsection \<open>components/tariff-calculator-form\<close>

record CalcFormData =
  cf_product :: string
  cf_exportingFrom :: string
  cf_importingTo :: string
  cf_quantity :: string
  cf_customCost :: string
  cf_calculationDate :: string
  cf_currency :: "string option"

record CalcFormState =
  calc_formData :: CalcFormData
  availableCurrencies :: "Currency list"

definition calc_loadCurrencies ::
  "string \<Rightarrow> string option \<Rightarrow> session \<Rightarrow> (request \<Rightarrow> CurrencyPayload response promise)
     \<Rightarrow> CalcFormState \<Rightarrow> CalcFormState" where
  "calc_loadCurrencies today env sess net st =
     (case fetchCurrencies env sess net of
        Resolved currencies \<Rightarrow>
          st\<lparr>availableCurrencies := currencies,
             calc_formData := (let prev = calc_formData st in
               prev\<lparr>cf_currency :=
                 (case cf_currency prev of
                    None \<Rightarrow> firstCode currencies
                  | Some c \<Rightarrow>
                      if truthy c \<and> list_ex (\<lambda>x. cur_code x = c) currencies then Some c
                      else firstCode currencies)\<rparr>)\<rparr>
      | Rejected \<Rightarrow>
          st\<lparr>availableCurrencies := FALLBACK_CURRENCIES today,
             calc_formData := (let prev = calc_formData st in
               prev\<lparr>cf_currency :=
                 Some (orElse (cf_currency prev) (cur_code (hd (FALLBACK_CURRENCIES today))))\<rparr>)\<rparr>)"

subsection \<open>components/tariff-comparison-panel\<close>

record ComparisonFormData =
  cmp_product :: string
  cmp_exportingFrom :: string
  cmp_importingToCountries :: "string list"
  cmp_quantity :: string
  cmp_customCost :: string
  cmp_currency :: string

record ComparisonState =
  cmp_formData :: ComparisonFormData
  currencies :: "Currency list"

definition cmp_loadCurrencies ::
  "string \<Rightarrow> string option \<Rightarrow> session \<Rightarrow> (request \<Rightarrow> CurrencyPayload response promise)
     \<Rightarrow> ComparisonState \<Rightarrow> ComparisonState" where
  "cmp_loadCurrencies today env sess net st =
     (case fetchCurrencies env sess net of
        Resolved currencyList \<Rightarrow>
          st\<lparr>currencies := currencyList,
             cmp_formData := (let prev = cmp_formData st in
               prev\<lparr>cmp_currency :=
                 (if list_ex (\<lambda>c. cur_code c = cmp_currency prev) currencyList
                  then cmp_currency prev
                  else (case firstCode currencyList of
                          Some c \<Rightarrow> c
                        | None \<Rightarrow> cmp_currency prev))\<rparr>)\<rparr>
      | Rejected \<Rightarrow>
          st\<lparr>currencies := FALLBACK_CURRENCIES today,
             cmp_formData := (let prev = cmp_formData st in
               prev\<lparr>cmp_currency :=
                 orElse (Some (cmp_currency prev)) (cur_code (hd (FALLBACK_CURRENCIES today)))\<rparr>)\<rparr>)"

section \<open>components/simulator-calculator: \<open>handleSubmit\<close>\<close>

text \<open>What JavaScript does with a parsed JSON value.\<close>

fun jsonTruthy :: "json \<Rightarrow> bool" where
  "jsonTruthy JNull = False"
| "jsonTruthy (JBool b) = b"
| "jsonTruthy (JNum x) = (x \<noteq> 0)"
| "jsonTruthy (JStr s) = truthy s"
| "jsonTruthy (JArr xs) = True"
| "jsonTruthy (JObj kvs) = True"

text \<open>A value that may be \<^verbatim>\<open>undefined\<close> (\<open>None\<close>).\<close>

definition optTruthy :: "json option \<Rightarrow> bool" where
  "optTruthy v = (case v of None \<Rightarrow> False | Some j \<Rightarrow> jsonTruthy j)"

text \<open>
  Reading the property \<open>k\<close> of a parsed value: a \<^verbatim>\<open>TypeError\<close> on \<^verbatim>\<open>null\<close>, the member
  of an object (the last one of that name, as \<^verbatim>\<open>JSON.parse\<close> keeps it), and
  \<^verbatim>\<open>undefined\<close> otherwise.
\<close>

definition getProp :: "json \<Rightarrow> string \<Rightarrow> json option promise" where
  "getProp j k =
     (case j of
        JNull \<Rightarrow> Rejected
      | JObj kvs \<Rightarrow> Resolved (map_of (rev kvs) k)
      | _ \<Rightarrow> Resolved None)"

text \<open>\<^verbatim>\<open>x.id || x.calculationId\<close>\<close>

definition idOf :: "json \<Rightarrow> json option promise" where
  "idOf x =
     (case getProp x ''id'' of
        Rejected \<Rightarrow> Rejected
      | Resolved a \<Rightarrow> if optTruthy a then Resolved a else getProp x ''calculationId'')"

text \<open>A number inside \<^verbatim>\<open>JSON.stringify\<close>: \<open>NaN\<close> and the infinities become \<^verbatim>\<open>null\<close>.\<close>

definition numJson :: "jsnum \<Rightarrow> json" where
  "numJson n = (case n of Fin x \<Rightarrow> JNum x | _ \<Rightarrow> JNull)"

text \<open>
  Printing a number: \<^verbatim>\<open>n.toFixed(2)\<close> and the conversion of a template string. Both
  belong to the platform and are parameters.
\<close>

record NumberFormat =
  toFixed2 :: "jsnum \<Rightarrow> string"
  numToString :: "jsnum \<Rightarrow> string"

text \<open>
  The readings of the clock and of the random source behind the two local identifiers
  \<^verbatim>\<open>`local_${Date.now()}_${Math.random().toString(36).substr(2, 9)}`\<close>.
\<close>

record Entropy =
  now1 :: string
  rand1 :: string
  now2 :: string
  rand2 :: string

definition localId :: "string \<Rightarrow> string \<Rightarrow> string" where
  "localId now rand = ''local_'' @ now @ ''_'' @ rand"

record SimFormData =
  sim_product :: string
  sim_unit :: string
  sim_exportingFrom :: string
  sim_importingTo :: string
  sim_tariffType :: string
  sim_tariffRate :: string
  sim_quantity :: string
  sim_customCost :: string
  sim_calculationDate :: string

record BreakdownItem =
  bi_description :: string
  bi_type :: string
  bi_rate :: string
  bi_amount :: jsnum

record SimResult =
  res_product :: string
  res_exportingFrom :: string
  res_importingTo :: string
  res_quantity :: jsnum
  res_unit :: string
  res_costPerUnit :: jsnum
  res_productCost :: jsnum
  res_tariffType :: string
  res_tariffRate :: jsnum
  res_tariffCost :: jsnum
  res_totalCost :: jsnum
  res_calculationDate :: string
  res_breakdown :: "BreakdownItem list"
  res_mode :: string
  res_currency :: string
  res_calculationId :: "json option"

record SimState =
  sim_formData :: SimFormData
  sim_error :: string
  sim_isLoading :: bool
  calculationResult :: "SimResult option"

text \<open>
  The local calculation of \<^verbatim>\<open>handleSubmit\<close>, from the three \<^verbatim>\<open>parseFloat\<close> calls to the
  \<^verbatim>\<open>result\<close> object, which has no \<open>calculationId\<close> yet.
\<close>

definition localResult :: "(rat \<Rightarrow> jsnum) \<Rightarrow> NumberFormat \<Rightarrow> SimFormData \<Rightarrow> SimResult" where
  "localResult rnd fmt formData =
     (let quantity = parseFloat rnd (sim_quantity formData);
          unitCost = parseFloat rnd (sim_customCost formData);
          tariffRate = parseFloat rnd (sim_tariffRate formData);
          productCost = jsMul rnd unitCost quantity;
          tariffCost =
            (if sim_tariffType formData = ''percentage''
             then jsDiv rnd (jsMul rnd productCost tariffRate) (Fin 100)
             else if sim_tariffType formData = ''fixed'' then jsMul rnd tariffRate quantity
             else Fin 0);
          totalCost = jsAdd rnd productCost tariffCost;
          unitLabel = sim_unit formData;
          breakdown =
            [\<lparr>bi_description = sim_product formData,
              bi_type = ''Product Cost'',
              bi_rate = ''$'' @ toFixed2 fmt unitCost @ ''/''
                          @ (if truthy unitLabel then unitLabel else ''unit''),
              bi_amount = productCost\<rparr>,
             \<lparr>bi_description = ''Tariff from '' @ sim_exportingFrom formData @ '' to ''
                                 @ sim_importingTo formData,
              bi_type = ''Tariff'',
              bi_rate = (if sim_tariffType formData = ''percentage''
                         then numToString fmt tariffRate @ ''%''
                         else ''$'' @ numToString fmt tariffRate @ ''/''
                                @ (if truthy unitLabel then unitLabel else ''unit'')),
              bi_amount = tariffCost\<rparr>]
      in \<lparr>res_product = sim_product formData,
          res_exportingFrom = sim_exportingFrom formData,
          res_importingTo = sim_importingTo formData,
          res_quantity = quantity,
          res_unit = unitLabel,
          res_costPerUnit = unitCost,
          res_productCost = productCost,
          res_tariffType = (if sim_tariffType formData = ''percentage''
                            then numToString fmt tariffRate @ ''% Tariff''
                            else ''$'' @ numToString fmt tariffRate @ '' Fixed Tariff''),
          res_tariffRate = tariffRate,
          res_tariffCost = tariffCost,
          res_totalCost = totalCost,
          res_calculationDate = sim_calculationDate formData,
          res_breakdown = breakdown,
          res_mode = ''simulator'',
          res_currency = ''USD'',
          res_calculationId = None\<rparr>)"

text \<open>The object given to \<^verbatim>\<open>JSON.stringify\<close> for the history.\<close>

definition breakdownJson :: "BreakdownItem \<Rightarrow> json" where
  "breakdownJson item =
     JObj [(''description'', JStr (bi_description item)), (''type'', JStr (bi_type item)),
           (''rate'', JStr (bi_rate item)), (''amount'', numJson (bi_amount item))]"

definition calculationData :: "SimResult \<Rightarrow> json" where
  "calculationData result =
     JObj [(''calculationData'',
       JObj [(''success'', JBool True),
             (''data'',
               JObj [(''product'', JStr (res_product result)),
                     (''exportingFrom'', JStr (res_exportingFrom result)),
                     (''importingTo'', JStr (res_importingTo result)),
                     (''quantity'', numJson (res_quantity result)),
                     (''unit'', JStr (res_unit result)),
                     (''productCost'', numJson (res_productCost result)),
                     (''costPerUnit'', numJson (res_costPerUnit result)),
                     (''totalCost'', numJson (res_totalCost result)),
                     (''tariffRate'', numJson (res_tariffRate result)),
                     (''tariffType'', JStr (res_tariffType result)),
                     (''breakdown'', JArr (map breakdownJson (res_breakdown result))),
                     (''source'', JStr ''simulator''),
                     (''currency'', JStr (res_currency result))])])]"

definition saveHistoryRequest :: "string option \<Rightarrow> string option \<Rightarrow> json \<Rightarrow> request" where
  "saveHistoryRequest env token body =
     \<lparr>req_url = getApiUrl env ''tariff/history/save'', req_query = [], req_method = ''POST'',
      req_headers = [(''Authorization'', bearer token), (''Content-Type'', ''application/json'')],
      req_credentials = Some ''include'', req_body = Some body\<rparr>"

definition historyRequest :: "string option \<Rightarrow> string option \<Rightarrow> request" where
  "historyRequest env token =
     \<lparr>req_url = getApiUrl env ''tariff/history'', req_query = [], req_method = ''GET'',
      req_headers = [(''Authorization'', bearer token), (''Content-Type'', ''application/json'')],
      req_credentials = Some ''include'', req_body = None\<rparr>"

text \<open>
  The inner \<^verbatim>\<open>try\<close> of \<^verbatim>\<open>handleSubmit\<close>: the \<open>calculationId\<close> of the result after it
  (\<open>None\<close> when it is left undefined). Whatever throws ends in the \<^verbatim>\<open>catch\<close>, which
  gives the first local identifier.
\<close>

definition saveToHistory ::
  "string option \<Rightarrow> session \<Rightarrow> (request \<Rightarrow> json response promise) \<Rightarrow> Entropy \<Rightarrow> SimResult
     \<Rightarrow> json option" where
  "saveToHistory env sess net en result =
     (let caught = Some (JStr (localId (now1 en) (rand1 en))) in
      case sess of
        Rejected \<Rightarrow> caught
      | Resolved token \<Rightarrow>
          (case net (saveHistoryRequest env token (calculationData result)) of
             Rejected \<Rightarrow> caught
           | Resolved historyResponse \<Rightarrow>
               if resp_ok historyResponse then
                 (case resp_json historyResponse of
                    Rejected \<Rightarrow> caught
                  | Resolved savedCalculation \<Rightarrow>
                      (case idOf savedCalculation of
                         Rejected \<Rightarrow> caught
                       | Resolved i \<Rightarrow> i))
               else
                 (case net (historyRequest env token) of
                    Rejected \<Rightarrow> caught
                  | Resolved getHistoryResponse \<Rightarrow>
                      if resp_ok getHistoryResponse then
                        (case resp_json getHistoryResponse of
                           Rejected \<Rightarrow> caught
                         | Resolved historyData \<Rightarrow>
                             (case historyData of
                                JArr (latestCalculation # rest) \<Rightarrow>
                                  (case idOf latestCalculation of
                                     Rejected \<Rightarrow> caught
                                   | Resolved i \<Rightarrow> i)
                              | _ \<Rightarrow> None))
                      else None)))"

text \<open>
  \<^verbatim>\<open>handleSubmit\<close>: the state of the component after the handler. The four checks come
  first, each with its message; then the calculation, the history and the result. The
  outer \<^verbatim>\<open>catch\<close> is never entered: nothing outside the inner \<^verbatim>\<open>try\<close> throws.
\<close>

definition handleSubmit ::
  "(rat \<Rightarrow> jsnum) \<Rightarrow> NumberFormat \<Rightarrow> string option \<Rightarrow> session
     \<Rightarrow> (request \<Rightarrow> json response promise) \<Rightarrow> Entropy \<Rightarrow> SimState \<Rightarrow> SimState" where
  "handleSubmit rnd fmt env sess net en st =
     (let formData = sim_formData st;
          st1 = st\<lparr>sim_error := [], sim_isLoading := True\<rparr>
      in
      if \<not> truthy (sim_product formData) \<or> \<not> truthy (sim_unit formData)
         \<or> \<not> truthy (sim_exportingFrom formData) \<or> \<not> truthy (sim_importingTo formData)
         \<or> \<not> truthy (sim_tariffRate formData) \<or> \<not> truthy (sim_quantity formData)
         \<or> \<not> truthy (sim_customCost formData)
      then st1\<lparr>sim_error := ''Please fill in all required fields'', sim_isLoading := False\<rparr>
      else if jsLessEq (parseFloat rnd (sim_quantity formData)) (Fin 0)
      then st1\<lparr>sim_error := ''Quantity must be greater than 0'', sim_isLoading := False\<rparr>
      else if jsLessEq (parseFloat rnd (sim_customCost formData)) (Fin 0)
      then st1\<lparr>sim_error := ''Unit cost must be greater than 0'', sim_isLoading := False\<rparr>
      else if jsLess (parseFloat rnd (sim_tariffRate formData)) (Fin 0)
      then st1\<lparr>sim_error := ''Tariff rate cannot be negative'', sim_isLoading := False\<rparr>
      else
        (let result = localResult rnd fmt formData;
             saved = saveToHistory env sess net en result;
             calculationId = (if optTruthy saved then saved
                              else Some (JStr (localId (now2 en) (rand2 en))))
         in st1\<lparr>calculationResult := Some (result\<lparr>res_calculationId := calculationId\<rparr>),
                sim_isLoading := False\<rparr>))"

section \<open>components/tariff-definitions-table: \<open>mergeTariffs\<close>\<close>

record TariffDefinition =
  td_id :: string
  td_product :: string
  td_exportingFrom :: string
  td_importingTo :: string
  td_type :: string
  td_rate :: jsnum
  td_effectiveDate :: string
  td_expirationDate :: string

text \<open>\<^verbatim>\<open>xs.findIndex(p)\<close>: the first index whose element satisfies \<open>p\<close>; \<open>None\<close> for \<open>-1\<close>.\<close>

fun findIndex :: "('a \<Rightarrow> bool) \<Rightarrow> 'a list \<Rightarrow> nat option" where
  "findIndex P [] = None"
| "findIndex P (x # xs) =
     (if P x then Some 0 else (case findIndex P xs of None \<Rightarrow> None | Some i \<Rightarrow> Some (Suc i)))"

text \<open>The predicate given to \<^verbatim>\<open>findIndex\<close>, for the modified tariff at hand.\<close>

definition sameTriple :: "TariffDefinition \<Rightarrow> TariffDefinition \<Rightarrow> bool" where
  "sameTriple modifiedTariff t \<longleftrightarrow>
     td_product t = td_product modifiedTariff
     \<and> td_exportingFrom t = td_exportingFrom modifiedTariff
     \<and> td_importingTo t = td_importingTo modifiedTariff"

text \<open>The body of the \<^verbatim>\<open>forEach\<close>: one modified tariff put into the merged list.\<close>

definition mergeStep :: "TariffDefinition list \<Rightarrow> TariffDefinition \<Rightarrow> TariffDefinition list" where
  "mergeStep mergedGlobalTariffs modifiedTariff =
     (case findIndex (sameTriple modifiedTariff) mergedGlobalTariffs of
        Some existingIndex \<Rightarrow> mergedGlobalTariffs[existingIndex := modifiedTariff]
      | None \<Rightarrow> mergedGlobalTariffs @ [modifiedTariff])"

text \<open>
  \<^verbatim>\<open>mergeTariffs\<close> on the values of the two state arrays: the copy of the global
  tariffs, with every modified tariff put into it in turn.
\<close>

definition mergeTariffs :: "TariffDefinition list \<Rightarrow> TariffDefinition list \<Rightarrow> TariffDefinition list" where
  "mergeTariffs globalTariffs modifiedGlobalTariffs = foldl mergeStep globalTariffs modifiedGlobalTariffs"

text \<open>
  The same function on a store, where an array is an address: the spread
  \<^verbatim>\<open>[...globalTariffs]\<close> allocates a new array, \<^verbatim>\<open>forEach\<close> visits the indices below
  the length the modified array had at the start and reads each element from the store,
  and every write goes to the new array. The result is the store after the call and the
  address of the merged list.
\<close>

type_synonym heap = "TariffDefinition list list"

function forEachFrom :: "nat \<Rightarrow> nat \<Rightarrow> nat \<Rightarrow> nat \<Rightarrow> heap \<Rightarrow> heap" where
  "forEachFrom k n src dst h =
     (if k < n \<and> k < length (h ! src)
      then forEachFrom (Suc k) n src dst (h[dst := mergeStep (h ! dst) (h ! src ! k)])
      else if k < n then forEachFrom (Suc k) n src dst h
      else h)"
  by pat_completeness auto
termination
  by (relation "measure (\<lambda>(k, n, src, dst, h). n - k)") auto

definition mergeTariffs_heap :: "heap \<Rightarrow> nat \<Rightarrow> nat \<Rightarrow> heap \<times> nat" where
  "mergeTariffs_heap h globalTariffs modifiedGlobalTariffs =
     (let mergedGlobalTariffs = length h;
          h1 = h @ [h ! globalTariffs]
      in (forEachFrom 0 (length (h1 ! modifiedGlobalTariffs)) modifiedGlobalTariffs
            mergedGlobalTariffs h1,
          mergedGlobalTariffs))"

section \<open>Every request of the client\<close>

text \<open>
  The tariff-definitions table and the trends filters do not use \<open>getApiUrl\<close>: each
  declares its own constant \<^verbatim>\<open>API_BASE_URL = "http://localhost:8080/api"\<close>.
\<close>

definition LOCAL_API_BASE_URL :: string where
  "LOCAL_API_BASE_URL = ''http://localhost:8080/api''"

text \<open>\<^verbatim>\<open>session?.access_token || ""\<close>, the token \<open>getAuthToken\<close> resolves to.\<close>

definition tokenOrEmpty :: "string option \<Rightarrow> string" where
  "tokenOrEmpty token = (case token of None \<Rightarrow> [] | Some t \<Rightarrow> if truthy t then t else [])"

text \<open>
  The two ways the components write the options of \<^verbatim>\<open>fetch\<close>: with the headers
  spelled out at the call, on the token of the session as it is, and with
  \<open>createAuthHeaders\<close> on the token of \<open>getAuthToken\<close>. The method is \<open>GET\<close> where the
  call names none.
\<close>

definition inlineFetch :: "string \<Rightarrow> string \<Rightarrow> string option \<Rightarrow> json option \<Rightarrow> request" where
  "inlineFetch u m token body =
     \<lparr>req_url = u, req_query = [], req_method = m,
      req_headers = [(''Authorization'', bearer token), (''Content-Type'', ''application/json'')],
      req_credentials = Some ''include'', req_body = body\<rparr>"

definition helperFetch ::
  "string \<Rightarrow> (string \<times> string) list \<Rightarrow> string \<Rightarrow> string option \<Rightarrow> json option \<Rightarrow> request" where
  "helperFetch u q m token body =
     \<lparr>req_url = u, req_query = q, req_method = m,
      req_headers = createAuthHeaders (tokenOrEmpty token),
      req_credentials = Some ''include'', req_body = body\<rparr>"

text \<open>
  The calls of \<^verbatim>\<open>fetch\<close> in the components, one constructor for each, with what the
  call takes from its surroundings (an identifier, an endpoint, a body, the filters).
\<close>

datatype fetchSite =
    PageCartCount
  | TrendsData FilterSelection
  | SimSaveHistory json
  | SimGetHistory
  | CalcData string
  | CalcCurrencies
  | CalcTariff "(string \<times> string) list"
  | CalcLatestHistory
  | CalcSaveHistory json
  | FiltersCountries
  | FiltersProducts
  | AdminStats
  | CartItems
  | CartHistory
  | CartRemove string
  | CartClear
  | CartAdd string
  | CartExport
  | ResultsAddToCart string
  | CmpProducts
  | CmpCountries
  | CmpCurrencies
  | CmpCompare json
  | DefsData string
  | DefsUpdate bool string json
  | DefsAdd bool json
  | DefsReloadUser
  | DefsDelete string bool
  | DefsReloadModified

text \<open>
  The request each call sends, for the environment's API base and the access token of
  the session (\<open>None\<close> when there is no session).
\<close>

fun fetchRequest :: "string option \<Rightarrow> string option \<Rightarrow> fetchSite \<Rightarrow> request" where
  "fetchRequest env token PageCartCount = cartRequest env token"
| "fetchRequest env token (TrendsData fs) = trendsRequest env (tokenOrEmpty token) fs"
| "fetchRequest env token (SimSaveHistory body) = saveHistoryRequest env token body"
| "fetchRequest env token SimGetHistory = historyRequest env token"
| "fetchRequest env token (CalcData endpoint) =
     helperFetch (getApiUrl env (if startsWith endpoint ''/'' then slice1 endpoint else endpoint))
       [] ''GET'' token None"
| "fetchRequest env token CalcCurrencies = currenciesRequest env (tokenOrEmpty token)"
| "fetchRequest env token (CalcTariff params) =
     helperFetch (getApiUrl env ''tariff'') params ''GET'' token None"
| "fetchRequest env token CalcLatestHistory =
     helperFetch (getApiUrl env ''tariff/history'') [] ''GET'' token None"
| "fetchRequest env token (CalcSaveHistory body) =
     helperFetch (getApiUrl env ''tariff/history/save'') [] ''POST'' token (Some body)"
| "fetchRequest env token FiltersCountries =
     helperFetch (LOCAL_API_BASE_URL @ ''/countries'') [] ''GET'' token None"
| "fetchRequest env token FiltersProducts =
     helperFetch (LOCAL_API_BASE_URL @ ''/products'') [] ''GET'' token None"
| "fetchRequest env token AdminStats =
     inlineFetch (getApiUrl env ''admin/dashboard/stats'') ''GET'' token None"
| "fetchRequest env token CartItems = inlineFetch (getApiUrl env ''export-cart'') ''GET'' token None"
| "fetchRequest env token CartHistory =
     inlineFetch (getApiUrl env ''tariff/history'') ''GET'' token None"
| "fetchRequest env token (CartRemove ident) =
     inlineFetch (getApiUrl env (''export-cart/remove/'' @ ident)) ''DELETE'' token None"
| "fetchRequest env token CartClear =
     inlineFetch (getApiUrl env ''export-cart/clear'') ''DELETE'' token None"
| "fetchRequest env token (CartAdd ident) =
     inlineFetch (getApiUrl env (''export-cart/add/'' @ ident)) ''POST'' token None"
| "fetchRequest env token CartExport =
     \<lparr>req_url = getApiUrl env ''export-cart/export'', req_query = [], req_method = ''GET'',
      req_headers = [(''Authorization'', bearer token)],
      req_credentials = Some ''include'', req_body = None\<rparr>"
| "fetchRequest env token (ResultsAddToCart encodedId) =
     helperFetch (getApiUrl env (''export-cart/add/'' @ encodedId)) [] ''POST'' token None"
| "fetchRequest env token CmpProducts = helperFetch (getApiUrl env ''products'') [] ''GET'' token None"
| "fetchRequest env token CmpCountries = helperFetch (getApiUrl env ''countries'') [] ''GET'' token None"
| "fetchRequest env token CmpCurrencies = currenciesRequest env (tokenOrEmpty token)"
| "fetchRequest env token (CmpCompare body) =
     helperFetch (getApiUrl env ''tariffs/compare'') [] ''POST'' token (Some body)"
| "fetchRequest env token (DefsData endpoint) =
     helperFetch (LOCAL_API_BASE_URL @ endpoint) [] ''GET'' token None"
| "fetchRequest env token (DefsUpdate isUserTariff ident body) =
     helperFetch (if isUserTariff then LOCAL_API_BASE_URL @ ''/tariff-definitions/user/'' @ ident
                  else LOCAL_API_BASE_URL @ ''/tariff-definitions/modified/'' @ ident)
       [] ''PUT'' token (Some body)"
| "fetchRequest env token (DefsAdd toModified body) =
     \<lparr>req_url = (if toModified then LOCAL_API_BASE_URL @ ''/tariff-definitions/modified''
                 else LOCAL_API_BASE_URL @ ''/tariff-definitions/user''),
      req_query = [], req_method = ''POST'',
      req_headers = [(''Content-Type'', ''application/json''),
                     (''Authorization'', if truthy (tokenOrEmpty token)
                                         then ''Bearer '' @ tokenOrEmpty token else [])],
      req_credentials = Some ''include'', req_body = Some body\<rparr>"
| "fetchRequest env token DefsReloadUser =
     helperFetch (LOCAL_API_BASE_URL @ ''/tariff-definitions/user'') [] ''GET'' token None"
| "fetchRequest env token (DefsDelete ident isModifiedGlobal) =
     helperFetch (if isModifiedGlobal then LOCAL_API_BASE_URL @ ''/tariff-definitions/modified/'' @ ident
                  else LOCAL_API_BASE_URL @ ''/tariff-definitions/user/'' @ ident)
       [] ''DELETE'' token None"
| "fetchRequest env token DefsReloadModified =
     helperFetch (LOCAL_API_BASE_URL @ ''/tariff-definitions/modified'') [] ''GET'' token None"

text \<open>
  The two exports of the tariff definitions are no \<^verbatim>\<open>fetch\<close>: the handler assigns the
  address to \<^verbatim>\<open>window.location.href\<close>, and the browser requests it with no header and
  no option of the client's.
\<close>

definition navigation :: "string \<Rightarrow> request" where
  "navigation u =
     \<lparr>req_url = u, req_query = [], req_method = ''GET'', req_headers = [],
      req_credentials = None, req_body = None\<rparr>"

definition handleExportCSV :: request where
  "handleExportCSV = navigation (LOCAL_API_BASE_URL @ ''/tariff-definitions/export'')"

definition adminExportDefinitions :: "string option \<Rightarrow> request" where
  "adminExportDefinitions env = navigation (getApiUrl env ''tariff-definitions/export'')"

section \<open>Predicates of the specification and concrete inputs\<close>

text \<open>
  The request of the specification for the cart: a \<open>GET\<close> of \<open>/export-cart\<close> under the
  API base, with the bearer token of the session and the credentials included.
\<close>

definition getExportCart :: "string option \<Rightarrow> string option \<Rightarrow> request" where
  "getExportCart env token =
     \<lparr>req_url = getApiUrl env ''/export-cart'', req_query = [], req_method = ''GET'',
      req_headers =
        [(''Authorization'',
          (case token of None \<Rightarrow> [] | Some t \<Rightarrow> if t = [] then [] else ''Bearer '' @ t)),
         (''Content-Type'', ''application/json'')],
      req_credentials = Some ''include'', req_body = None\<rparr>"

text \<open>
  The success case of the cart request in the words of the specification: \<open>GET\<close>
  \<open>/export-cart\<close> returns a response whose status is not 204, that is OK, whose content
  type contains \<open>application/json\<close> and whose body parses to the array \<open>xs\<close>.
\<close>

definition cartArrayReceived ::
  "string option \<Rightarrow> session \<Rightarrow> (request \<Rightarrow> json response promise) \<Rightarrow> json list \<Rightarrow> bool" where
  "cartArrayReceived env sess net xs \<longleftrightarrow>
     (\<exists>token r ct a b.
        sess = Resolved token \<and> net (getExportCart env token) = Resolved r
        \<and> resp_status r \<noteq> 204 \<and> resp_ok r
        \<and> resp_contentType r = Some ct \<and> ct = a @ ''application/json'' @ b
        \<and> resp_json r = Resolved (JArr xs))"

text \<open>
  A backend that answers the \<open>GET\<close> of the export cart at the default API base, for the
  bearer token \<open>tok\<close>, with the given response, and rejects every other request.
\<close>

definition cartServer :: "json response \<Rightarrow> request \<Rightarrow> json response promise" where
  "cartServer resp rq =
     (if req_method rq = ''GET'' \<and> req_url rq = ''http://localhost:8080/api/export-cart''
         \<and> req_query rq = [] \<and> req_body rq = None
         \<and> req_credentials rq = Some ''include''
         \<and> map_of (req_headers rq) ''Authorization'' = Some ''Bearer tok''
      then Resolved resp else Rejected)"

definition okCart :: "json response" where
  "okCart = \<lparr>resp_status = 200, resp_ok = True,
             resp_contentType = Some ''application/json; charset=utf-8'',
             resp_text = ''[null,null]'', resp_json = Resolved (JArr [JNull, JNull])\<rparr>"

definition emptyCart :: "json response" where
  "emptyCart = \<lparr>resp_status = 204, resp_ok = True, resp_contentType = None,
                resp_text = [], resp_json = Rejected\<rparr>"

definition filters8 :: FilterSelection where
  "filters8 = \<lparr>exportCountries = [''China'', ''Japan''], importCountries = [''Singapore'', ''India''],
               products = [''Rice'', ''Wheat''],
               dateRange = \<lparr>dr_start = ''2020-01-01'', dr_end = ''2024-12-31''\<rparr>\<rparr>"

definition filters12 :: FilterSelection where
  "filters12 = filters8\<lparr>products := [''Rice'', ''Wheat'', ''Sugar'']\<rparr>"

definition trendsState0 :: TrendsState where
  "trendsState0 = \<lparr>filters = filters8\<lparr>exportCountries := [], importCountries := [], products := []\<rparr>,
                   chartData = [], loading = False, trends_error = None\<rparr>"

definition trendsOk :: "TrendsResult response" where
  "trendsOk = \<lparr>resp_status = 200, resp_ok = True, resp_contentType = Some ''application/json'',
               resp_text = [],
               resp_json = Resolved \<lparr>tr_success = True, tr_data = Some [], tr_error = None\<rparr>\<rparr>"

text \<open>
  The failure of the currency fetch in the words of the specification: a response that
  is not OK, a payload whose \<open>currency\<close> field is not an array, or an empty list. And
  its success: an OK response whose payload holds the non-empty list \<open>cs\<close>.
\<close>

definition currencyFetchFails ::
  "string option \<Rightarrow> session \<Rightarrow> (request \<Rightarrow> CurrencyPayload response promise) \<Rightarrow> bool" where
  "currencyFetchFails env sess net \<longleftrightarrow>
     (\<exists>token r. getAuthToken sess = Resolved token \<and> net (currenciesRequest env token) = Resolved r
        \<and> (\<not> resp_ok r
           \<or> (\<exists>p. resp_json r = Resolved p \<and> (pl_currency p = None \<or> pl_currency p = Some []))))"

definition currencyFetchGives ::
  "string option \<Rightarrow> session \<Rightarrow> (request \<Rightarrow> CurrencyPayload response promise) \<Rightarrow> Currency list \<Rightarrow> bool" where
  "currencyFetchGives env sess net cs \<longleftrightarrow>
     (\<exists>token r p. getAuthToken sess = Resolved token \<and> net (currenciesRequest env token) = Resolved r
        \<and> resp_ok r \<and> resp_json r = Resolved p \<and> pl_currency p = Some cs \<and> cs \<noteq> [])"

definition serverError :: "CurrencyPayload response" where
  "serverError = \<lparr>resp_status = 500, resp_ok = False, resp_contentType = None,
                  resp_text = ''Internal Server Error'', resp_json = Rejected\<rparr>"

definition twoCurrencies :: "Currency list" where
  "twoCurrencies =
     [\<lparr>cur_code = ''GBP'', cur_name = ''Pound Sterling'', cur_rate = 79 / 100,
       cur_lastUpdated = ''2025-01-01''\<rparr>,
      \<lparr>cur_code = ''JPY'', cur_name = ''Japanese Yen'', cur_rate = 150,
       cur_lastUpdated = ''2025-01-01''\<rparr>]"

definition currenciesOk :: "CurrencyPayload response" where
  "currenciesOk = \<lparr>resp_status = 200, resp_ok = True, resp_contentType = Some ''application/json'',
                   resp_text = [], resp_json = Resolved \<lparr>pl_currency = Some twoCurrencies\<rparr>\<rparr>"

definition calcForm :: "string option \<Rightarrow> CalcFormState" where
  "calcForm cur =
     \<lparr>calc_formData = \<lparr>cf_product = [], cf_exportingFrom = [], cf_importingTo = [],
                        cf_quantity = ''1'', cf_customCost = [], cf_calculationDate = ''2025-01-01'',
                        cf_currency = cur\<rparr>,
      availableCurrencies = []\<rparr>"

definition cmpForm :: "string \<Rightarrow> ComparisonState" where
  "cmpForm cur =
     \<lparr>cmp_formData = \<lparr>cmp_product = [], cmp_exportingFrom = [], cmp_importingToCountries = [],
                       cmp_quantity = ''1'', cmp_customCost = [], cmp_currency = cur\<rparr>,
      currencies = []\<rparr>"

definition steelTariff :: NewTariff where
  "steelTariff = \<lparr>nt_product = ''Steel'', nt_exportingFrom = ''China'', nt_importingTo = ''Singapore'',
                  nt_type = ''AHS'', nt_rate = ''5.5'', nt_effectiveDate = ''2025-01-01'',
                  nt_expirationDate = ''2025-12-31''\<rparr>"

definition noAlert :: AlertDialog where
  "noAlert = \<lparr>alert_open = False, alert_title = [], alert_message = []\<rparr>"



text \<open>
  The four checks of the simulator's \<open>handleSubmit\<close>, as one predicate on the form:
  every required field is filled, and none of the three comparisons rejects.
\<close>

definition passesChecks :: "(rat \<Rightarrow> jsnum) \<Rightarrow> SimFormData \<Rightarrow> bool" where
  "passesChecks rnd fd \<longleftrightarrow>
     sim_product fd \<noteq> [] \<and> sim_unit fd \<noteq> [] \<and> sim_exportingFrom fd \<noteq> [] \<and> sim_importingTo fd \<noteq> []
     \<and> sim_tariffRate fd \<noteq> [] \<and> sim_quantity fd \<noteq> [] \<and> sim_customCost fd \<noteq> []
     \<and> \<not> jsLessEq (parseFloat rnd (sim_quantity fd)) (Fin 0)
     \<and> \<not> jsLessEq (parseFloat rnd (sim_customCost fd)) (Fin 0)
     \<and> \<not> jsLess (parseFloat rnd (sim_tariffRate fd)) (Fin 0)"

text \<open>
  A sample submission: the printing of the platform at the numbers of the sample, a
  history endpoint that saves, clock and random readings, and the form.
\<close>

definition fmtSample :: NumberFormat where
  "fmtSample = \<lparr>toFixed2 = (\<lambda>n. if n = Fin 10 then ''10.00'' else ''?''),
                numToString = (\<lambda>n. if n = Fin 5 then ''5'' else ''?'')\<rparr>"

definition savedOk :: "json response" where
  "savedOk = \<lparr>resp_status = 200, resp_ok = True, resp_contentType = Some ''application/json'',
              resp_text = [], resp_json = Resolved (JObj [(''id'', JNum 42)])\<rparr>"

definition entropy0 :: Entropy where
  "entropy0 = \<lparr>now1 = ''1700000000000'', rand1 = ''k3j9x0q1z'',
               now2 = ''1700000000001'', rand2 = ''p8m2c7v5b''\<rparr>"

definition steelForm :: SimFormData where
  "steelForm = \<lparr>sim_product = ''Steel'', sim_unit = ''kg'', sim_exportingFrom = ''China'',
                sim_importingTo = ''Singapore'', sim_tariffType = ''percentage'',
                sim_tariffRate = ''5'', sim_quantity = ''2'', sim_customCost = ''10'',
                sim_calculationDate = ''2025-01-01''\<rparr>"

definition simState :: "SimFormData \<Rightarrow> SimState" where
  "simState fd = \<lparr>sim_formData = fd, sim_error = [], sim_isLoading = False,
                  calculationResult = None\<rparr>"

text \<open>
  The words of the specification. The triple of a tariff; the last modified tariff with
  a given triple; a base entry overridden by the last modified tariff with its triple, if
  there is one; and the list that keeps, for every triple in the order of its first
  occurrence, the last tariff with that triple.
\<close>

definition triple :: "TariffDefinition \<Rightarrow> string \<times> string \<times> string" where
  "triple t = (td_product t, td_exportingFrom t, td_importingTo t)"

fun lastWith :: "string \<times> string \<times> string \<Rightarrow> TariffDefinition list \<Rightarrow> TariffDefinition option" where
  "lastWith k [] = None"
| "lastWith k (m # ms) =
     (case lastWith k ms of
        None \<Rightarrow> if triple m = k then Some m else None
      | Some x \<Rightarrow> Some x)"

definition override :: "TariffDefinition \<Rightarrow> TariffDefinition list \<Rightarrow> TariffDefinition" where
  "override b ms = (case lastWith (triple b) ms of None \<Rightarrow> b | Some m \<Rightarrow> m)"

function lastPerTriple :: "TariffDefinition list \<Rightarrow> TariffDefinition list" where
  "lastPerTriple [] = []"
| "lastPerTriple (m # ms) =
     override m ms # lastPerTriple (filter (\<lambda>x. triple x \<noteq> triple m) ms)"
  by pat_completeness auto
termination
  by (relation "measure length") (auto simp: less_Suc_eq_le)

text \<open>
  The merged list as the claim states it: every base entry overridden in place (first
  matching entry only), and every modified tariff that matches no base entry appended.
\<close>

fun mergeClaimed :: "TariffDefinition list \<Rightarrow> TariffDefinition list \<Rightarrow> TariffDefinition list" where
  "mergeClaimed [] ms = ms"
| "mergeClaimed (b # bs) ms = override b ms # mergeClaimed bs (filter (\<lambda>x. triple x \<noteq> triple b) ms)"

text \<open>The step of the loop, written without indices.\<close>

fun upsert :: "TariffDefinition \<Rightarrow> TariffDefinition list \<Rightarrow> TariffDefinition list" where
  "upsert m [] = [m]"
| "upsert m (t # ts) = (if triple t = triple m then m # ts else t # upsert m ts)"

text \<open>Sample tariffs: two global ones, and modified ones for an old and a new triple.\<close>

definition riceTariff :: TariffDefinition where
  "riceTariff = \<lparr>td_id = ''global-1'', td_product = ''Rice'', td_exportingFrom = ''India'',
                 td_importingTo = ''Japan'', td_type = ''MFN'', td_rate = Fin 3,
                 td_effectiveDate = ''2024-01-01'', td_expirationDate = ''2024-12-31''\<rparr>"

definition steelGlobal :: TariffDefinition where
  "steelGlobal = \<lparr>td_id = ''global-2'', td_product = ''Steel'', td_exportingFrom = ''China'',
                  td_importingTo = ''Singapore'', td_type = ''AHS'', td_rate = Fin 5,
                  td_effectiveDate = ''2024-01-01'', td_expirationDate = ''2024-12-31''\<rparr>"

definition steelModified :: TariffDefinition where
  "steelModified = steelGlobal\<lparr>td_id := ''admin-modified-1'', td_rate := Fin 7\<rparr>"

definition wheatModified1 :: TariffDefinition where
  "wheatModified1 = \<lparr>td_id = ''admin-modified-2'', td_product = ''Wheat'', td_exportingFrom = ''USA'',
                     td_importingTo = ''Japan'', td_type = ''MFN'', td_rate = Fin 4,
                     td_effectiveDate = ''2024-01-01'', td_expirationDate = ''2024-12-31''\<rparr>"

definition wheatModified2 :: TariffDefinition where
  "wheatModified2 = wheatModified1\<lparr>td_id := ''admin-modified-3'', td_rate := Fin 6\<rparr>"

section \<open>Lemmas on the string functions\<close>

lemma startsWith_iff: "startsWith s p \<longleftrightarrow> (\<exists>t. s = p @ t)"
  by (induction s p rule: startsWith.induct) auto

lemma includesStr_iff: "includesStr s p \<longleftrightarrow> (\<exists>a b. s = a @ p @ b)"
proof (induction s)
  case Nil
  then show ?case by simp
next
  case (Cons c cs)
  show ?case
  proof
    assume "includesStr (c # cs) p"
    then consider "startsWith (c # cs) p" | "includesStr cs p" by auto
    then show "\<exists>a b. c # cs = a @ p @ b"
    proof cases
      case 1
      then obtain t where "c # cs = p @ t" by (auto simp: startsWith_iff)
      then have "c # cs = [] @ p @ t" by simp
      then show ?thesis by blast
    next
      case 2
      then obtain a b where "cs = a @ p @ b" using Cons.IH by blast
      then have "c # cs = (c # a) @ p @ b" by simp
      then show ?thesis by blast
    qed
  next
    assume "\<exists>a b. c # cs = a @ p @ b"
    then obtain a b where ab: "c # cs = a @ p @ b" by blast
    show "includesStr (c # cs) p"
    proof (cases a)
      case Nil
      with ab have "startsWith (c # cs) p" by (auto simp: startsWith_iff)
      then show ?thesis by simp
    next
      case (Cons x a')
      with ab have "cs = a' @ p @ b" by simp
      then have "includesStr cs p" using Cons.IH by blast
      then show ?thesis by simp
    qed
  qed
qed

lemma startsWith_slash: "startsWith s ''/'' \<longleftrightarrow> (\<exists>t. s = CHR ''/'' # t)"
  by (simp add: startsWith_iff)

lemma endsWith_iff: "endsWith s p \<longleftrightarrow> (\<exists>t. s = t @ p)"
proof
  assume "endsWith s p"
  then obtain t where "rev s = rev p @ t" by (auto simp: endsWith_def startsWith_iff)
  then have "rev (rev s) = rev (rev p @ t)" by simp
  then have "s = rev t @ p" by simp
  then show "\<exists>t. s = t @ p" by blast
next
  assume "\<exists>t. s = t @ p"
  then obtain t where "s = t @ p" by blast
  then have "rev s = rev p @ rev t" by simp
  then show "endsWith s p" unfolding endsWith_def startsWith_iff by blast
qed

section \<open>The address of an endpoint\<close>

text \<open>
  C10. For every endpoint string \<open>e\<close>, \<open>getApiUrl e\<close> is \<open>B + "/" + e'\<close>, where \<open>e'\<close>
  is \<open>e\<close> with a single leading slash removed if present, and \<open>B\<close> is the API base when
  that already ends with \<open>/api\<close> and the API base followed by \<open>/api\<close> otherwise.
  Consequently an endpoint that does not start with a slash gives the same address with
  and without one slash put in front of it, and in that address the endpoint follows
  the base after exactly one slash.
\<close>

theorem getApiUrl_shape:
  "getApiUrl env e =
     (if \<exists>t. API_BASE_URL env = t @ ''/api'' then API_BASE_URL env
      else API_BASE_URL env @ ''/api'')
     @ ''/'' @ (case e of [] \<Rightarrow> [] | c # cs \<Rightarrow> if c = CHR ''/'' then cs else e)
   \<and> (\<not> startsWith e ''/'' \<longrightarrow>
        getApiUrl env (''/'' @ e) = getApiUrl env e
        \<and> getApiUrl env e = getApiUrl env [] @ e
        \<and> (\<forall>t. e \<noteq> CHR ''/'' # t))"
proof (cases e)
  case Nil
  then show ?thesis
    by (simp add: getApiUrl_def slice1_def Let_def endsWith_iff)
next
  case (Cons c cs)
  then show ?thesis
    by (simp add: getApiUrl_def slice1_def Let_def endsWith_iff)
qed

theorem getApiUrl_shape_witness:
  "\<not> startsWith ''export-cart'' ''/''
   \<and> getApiUrl None ''/export-cart'' = getApiUrl None ''export-cart''
   \<and> getApiUrl None ''export-cart'' = ''http://localhost:8080/api/export-cart''
   \<and> getApiUrl (Some ''https://h.example'') ''/countries'' = ''https://h.example/api/countries''"
  using getApiUrl_shape [of None "''export-cart''"]
  by (simp add: getApiUrl_def API_BASE_URL_def endsWith_def slice1_def truthy_def Let_def)

section \<open>Lemmas on the cart count\<close>

lemma arrayLength_cases: "arrayLength j = n \<longleftrightarrow> (\<exists>xs. j = JArr xs \<and> n = length xs) \<or> ((\<forall>xs. j \<noteq> JArr xs) \<and> n = 0)"
  by (cases j) (auto simp: arrayLength_def)

lemma parseCartResponse_same:
  "fetchCartCount env (Resolved token) (\<lambda>_. Resolved r) old = parseCartResponse r"
  by (auto simp: fetchCartCount_def parseCartResponse_def EMPTY_CART_STATUS_def split: option.splits)

lemma cartRequest_getExportCart: "cartRequest env token = getExportCart env token"
proof -
  have "getApiUrl env ''export-cart'' = getApiUrl env ''/export-cart''"
    by (simp add: getApiUrl_def slice1_def Let_def)
  then show ?thesis
    by (simp add: cartRequest_def getExportCart_def bearer_def truthy_def split: option.splits)
qed

lemma fetchCartCount_answer:
  assumes "\<And>token. sess = Resolved token \<Longrightarrow> net' (getExportCart env token) = net (getExportCart env token)"
  shows "fetchCartCount env sess net' old = fetchCartCount env sess net old"
proof (cases sess)
  case Rejected
  then show ?thesis by (simp add: fetchCartCount_def)
next
  case (Resolved token)
  with assms have "net' (cartRequest env token) = net (cartRequest env token)"
    by (simp add: cartRequest_getExportCart)
  with Resolved show ?thesis by (simp add: fetchCartCount_def)
qed

text \<open>
  C7. \<open>fetchCartCount\<close> sets the cart count to the length of the response array exactly
  when \<open>GET /export-cart\<close> returns a status other than 204 that is OK, with a content
  type containing \<open>application/json\<close> and a body that parses to an array. In every other
  case (status 204, a status that is not OK, a missing or other content type, a body that
  does not parse, a body that is no array, a rejected request or session) it sets the
  count to 0. The old count never survives. The request it sends is this \<open>GET\<close> of
  \<open>/export-cart\<close> under the API base, and the count depends on the network through the
  answer to this request only. \<open>parseCartResponse\<close> takes the same decision on a response.
\<close>

theorem fetchCartCount_exact:
  "(cartArrayReceived env sess net xs \<longrightarrow> fetchCartCount env sess net old = length xs)
   \<and> ((\<forall>ys. \<not> cartArrayReceived env sess net ys) \<longrightarrow> fetchCartCount env sess net old = 0)
   \<and> parseCartResponse r = fetchCartCount env (Resolved token) (\<lambda>_. Resolved r) old
   \<and> cartRequest env token = getExportCart env token
   \<and> req_method (cartRequest env token) = ''GET''
   \<and> req_url (cartRequest env token) = getApiUrl env [] @ ''export-cart''
   \<and> ((\<forall>tk. sess = Resolved tk \<longrightarrow> net' (getExportCart env tk) = net (getExportCart env tk))
        \<longrightarrow> fetchCartCount env sess net' old = fetchCartCount env sess net old)"
proof (intro conjI impI)
  assume "cartArrayReceived env sess net xs"
  then obtain token r ct a b where h:
    "sess = Resolved token" "net (cartRequest env token) = Resolved r"
    "resp_status r \<noteq> 204" "resp_ok r" "resp_contentType r = Some ct"
    "ct = a @ ''application/json'' @ b" "resp_json r = Resolved (JArr xs)"
    unfolding cartArrayReceived_def cartRequest_getExportCart by blast
  from h(6) have "includesStr ct ''application/json''" "truthy ct"
    by (auto simp: includesStr_iff truthy_def)
  with h show "fetchCartCount env sess net old = length xs"
    by (simp add: fetchCartCount_def arrayLength_def)
next
  assume no: "\<forall>ys. \<not> cartArrayReceived env sess net ys"
  show "fetchCartCount env sess net old = 0"
  proof (rule ccontr)
    assume nz: "fetchCartCount env sess net old \<noteq> 0"
    then obtain token where s: "sess = Resolved token"
      by (cases sess) (auto simp: fetchCartCount_def)
    with nz obtain r where r: "net (cartRequest env token) = Resolved r"
      by (cases "net (cartRequest env token)") (auto simp: fetchCartCount_def)
    with nz s have st: "resp_status r \<noteq> 204" "resp_ok r"
      by (auto simp: fetchCartCount_def split: if_splits)
    with nz s r obtain ct where ct: "resp_contentType r = Some ct"
      by (cases "resp_contentType r") (auto simp: fetchCartCount_def)
    with nz s r st have inc: "includesStr ct ''application/json''"
      by (auto simp: fetchCartCount_def split: if_splits)
    with nz s r st ct obtain j where j: "resp_json r = Resolved j" "arrayLength j \<noteq> 0"
      by (cases "resp_json r") (auto simp: fetchCartCount_def split: if_splits)
    then obtain ys where "j = JArr ys" by (cases j) (auto simp: arrayLength_def)
    with s r st ct inc j have "cartArrayReceived env sess net ys"
      unfolding cartArrayReceived_def cartRequest_getExportCart includesStr_iff by blast
    with no show False by blast
  qed
next
  show "parseCartResponse r = fetchCartCount env (Resolved token) (\<lambda>_. Resolved r) old"
    by (simp add: parseCartResponse_same)
next
  show "cartRequest env token = getExportCart env token"
    by (rule cartRequest_getExportCart)
next
  show "req_method (cartRequest env token) = ''GET''"
    by (simp add: cartRequest_def)
next
  show "req_url (cartRequest env token) = getApiUrl env [] @ ''export-cart''"
    by (simp add: cartRequest_def getApiUrl_def Let_def)
next
  assume "\<forall>tk. sess = Resolved tk \<longrightarrow> net' (getExportCart env tk) = net (getExportCart env tk)"
  then show "fetchCartCount env sess net' old = fetchCartCount env sess net old"
    by (intro fetchCartCount_answer) blast
qed

theorem fetchCartCount_exact_witness:
  "req_url (getExportCart None (Some ''tok'')) = ''http://localhost:8080/api/export-cart''
   \<and> req_method (cartRequest None (Some ''tok'')) = ''GET''
   \<and> req_url (cartRequest None (Some ''tok'')) = ''http://localhost:8080/api/export-cart''
   \<and> cartServer okCart (getExportCart None (Some ''tok'')) = Resolved okCart
   \<and> cartServer okCart ((getExportCart None (Some ''tok''))\<lparr>req_url := []\<rparr>) = Rejected
   \<and> cartArrayReceived None (Resolved (Some ''tok'')) (cartServer okCart) [JNull, JNull]
   \<and> fetchCartCount None (Resolved (Some ''tok'')) (cartServer okCart) 7 = 2
   \<and> (\<forall>ys. \<not> cartArrayReceived None (Resolved (Some ''tok'')) (cartServer emptyCart) ys)
   \<and> fetchCartCount None (Resolved (Some ''tok'')) (cartServer emptyCart) 7 = 0
   \<and> fetchCartCount None (Resolved (Some ''tok'')) (\<lambda>_. Resolved okCart) 7 = 2"
proof -
  have u: "getApiUrl None ''/export-cart'' = ''http://localhost:8080/api/export-cart''"
    by (simp add: getApiUrl_def API_BASE_URL_def endsWith_def slice1_def Let_def)
  have g: "cartServer resp (getExportCart None (Some ''tok'')) = Resolved resp" for resp
    by (simp add: cartServer_def getExportCart_def u)
  have a: "cartArrayReceived None (Resolved (Some ''tok'')) (cartServer okCart) [JNull, JNull]"
    unfolding cartArrayReceived_def
    by (rule exI [of _ "Some ''tok''"], rule exI [of _ okCart],
        rule exI [of _ "''application/json; charset=utf-8''"], rule exI [of _ "[]"],
        rule exI [of _ "''; charset=utf-8''"]) (simp add: g, simp add: okCart_def)
  have b: "\<forall>ys. \<not> cartArrayReceived None (Resolved (Some ''tok'')) (cartServer emptyCart) ys"
    by (simp add: cartArrayReceived_def g) (simp add: emptyCart_def)
  have c: "\<forall>tk. Resolved (Some ''tok'') = Resolved tk \<longrightarrow>
             (\<lambda>_. Resolved okCart) (getExportCart None tk) = cartServer okCart (getExportCart None tk)"
    by (simp add: g)
  have r: "cartServer okCart ((getExportCart None (Some ''tok''))\<lparr>req_url := []\<rparr>) = Rejected"
    by (simp add: cartServer_def)
  note t1 = fetchCartCount_exact [of None "Resolved (Some ''tok'')" "cartServer okCart" "[JNull, JNull]" 7
      okCart "Some ''tok''" "\<lambda>_. Resolved okCart"]
  note t2 = fetchCartCount_exact [of None "Resolved (Some ''tok'')" "cartServer emptyCart" "[]" 7
      okCart "Some ''tok''" "cartServer emptyCart"]
  have n2: "fetchCartCount None (Resolved (Some ''tok'')) (cartServer okCart) 7 = 2"
    using t1 a by simp
  have n0: "fetchCartCount None (Resolved (Some ''tok'')) (cartServer emptyCart) 7 = 0"
    using t2 b by blast
  have same: "fetchCartCount None (Resolved (Some ''tok'')) (\<lambda>_. Resolved okCart) 7
              = fetchCartCount None (Resolved (Some ''tok'')) (cartServer okCart) 7"
    using t1 c by blast
  have rq: "cartRequest None (Some ''tok'') = getExportCart None (Some ''tok'')"
    using t1 by blast
  have url: "req_url (getExportCart None (Some ''tok'')) = ''http://localhost:8080/api/export-cart''"
    by (simp add: getExportCart_def u)
  have meth: "req_method (cartRequest None (Some ''tok'')) = ''GET''"
    using t1 by blast
  show ?thesis
    unfolding rq using url meth [unfolded rq] g [of okCart] r a n2 b n0 same by simp
qed

text \<open>
  C9. \<open>handleFilterChange\<close> never fetches when the selection is invalid. If one of the
  import countries, export countries or products is empty, or the product of the three
  lengths exceeds \<open>MAX_LINES = 10\<close>, it sets an error message, clears the chart data and
  sends no request. A request is sent only when the three selections are non-empty and the
  number of combinations is at most 10; then the fetch is attempted, and it sends the one
  trends request as soon as the session provider has answered.
\<close>

theorem handleFilterChange_guard:
  "((importCountries nf = [] \<or> exportCountries nf = [] \<or> products nf = []
      \<or> length (importCountries nf) * length (exportCountries nf) * length (products nf) > 10)
     \<longrightarrow> snd (handleFilterChange env sess net nf st) = []
         \<and> chartData (fst (handleFilterChange env sess net nf st)) = []
         \<and> trends_error (fst (handleFilterChange env sess net nf st)) \<noteq> None)
   \<and> (snd (handleFilterChange env sess net nf st) \<noteq> []
     \<longrightarrow> importCountries nf \<noteq> [] \<and> exportCountries nf \<noteq> [] \<and> products nf \<noteq> []
         \<and> length (importCountries nf) * length (exportCountries nf) * length (products nf) \<le> 10)
   \<and> (importCountries nf \<noteq> [] \<and> exportCountries nf \<noteq> [] \<and> products nf \<noteq> []
       \<and> length (importCountries nf) * length (exportCountries nf) * length (products nf) \<le> 10
     \<longrightarrow> snd (handleFilterChange env sess net nf st) =
           (case getAuthToken sess of Rejected \<Rightarrow> []
            | Resolved token \<Rightarrow> [trendsRequest env token nf]))"
proof -
  have bad: "snd (handleFilterChange env sess net nf st) = []
         \<and> chartData (fst (handleFilterChange env sess net nf st)) = []
         \<and> trends_error (fst (handleFilterChange env sess net nf st)) \<noteq> None"
    if "importCountries nf = [] \<or> exportCountries nf = [] \<or> products nf = []
      \<or> length (importCountries nf) * length (exportCountries nf) * length (products nf) > 10"
    using that by (auto simp: handleFilterChange_def MAX_LINES_def Let_def)
  have good: "snd (handleFilterChange env sess net nf st) =
           (case getAuthToken sess of Rejected \<Rightarrow> []
            | Resolved token \<Rightarrow> [trendsRequest env token nf])"
    if "importCountries nf \<noteq> [] \<and> exportCountries nf \<noteq> [] \<and> products nf \<noteq> []
       \<and> length (importCountries nf) * length (exportCountries nf) * length (products nf) \<le> 10"
    using that
    by (auto simp: handleFilterChange_def fetchTariffTrendsData_def MAX_LINES_def Let_def
             split: promise.splits option.splits prod.splits)
  from bad good show ?thesis by (metis not_le)
qed

theorem handleFilterChange_guard_witness:
  "length (importCountries filters12) * length (exportCountries filters12)
     * length (products filters12) > 10
   \<and> handleFilterChange None (Resolved (Some ''tok'')) (\<lambda>_. Resolved trendsOk) filters12 trendsState0
       = (trendsState0\<lparr>filters := filters12,
            trends_error := Some ''Too many combinations (12 lines). Please reduce selections to create 10 or fewer lines for optimal readability.'',
            chartData := []\<rparr>, [])
   \<and> importCountries filters8 \<noteq> [] \<and> exportCountries filters8 \<noteq> [] \<and> products filters8 \<noteq> []
   \<and> length (importCountries filters8) * length (exportCountries filters8)
        * length (products filters8) \<le> 10
   \<and> snd (handleFilterChange None (Resolved (Some ''tok'')) (\<lambda>_. Resolved trendsOk) filters8 trendsState0)
       = [trendsRequest None ''tok'' filters8]
   \<and> snd (handleFilterChange None (Resolved (Some ''tok'')) (\<lambda>_. Resolved trendsOk) filters8 trendsState0) \<noteq> []
   \<and> MAX_LINES = 10"
  using handleFilterChange_guard [of filters12 None "Resolved (Some ''tok'')" "\<lambda>_. Resolved trendsOk" trendsState0]
    handleFilterChange_guard [of filters8 None "Resolved (Some ''tok'')" "\<lambda>_. Resolved trendsOk" trendsState0]
  by (simp add: handleFilterChange_def fetchTariffTrendsData_def getAuthToken_def truthy_def
        filters12_def filters8_def trendsState0_def trendsOk_def MAX_LINES_def Let_def
        formatTariffSeriesData_def)

section \<open>Lemmas on the validation of a new tariff\<close>

lemma not_less_zero_iff: "x \<noteq> NaN \<Longrightarrow> \<not> jsLess x (Fin 0) \<longleftrightarrow> jsGreaterEq x (Fin 0)"
  by (cases x) (auto simp: jsLess_def jsGreaterEq_def jsLessEq_def)

lemma validateAllFieldsFilled_fst:
  "fst (validateAllFieldsFilled nt al) \<longleftrightarrow>
     nt_product nt \<noteq> [] \<and> nt_exportingFrom nt \<noteq> [] \<and> nt_importingTo nt \<noteq> [] \<and> nt_type nt \<noteq> []
     \<and> nt_rate nt \<noteq> [] \<and> nt_effectiveDate nt \<noteq> [] \<and> nt_expirationDate nt \<noteq> []"
  by (simp add: validateAllFieldsFilled_def truthy_def)

lemma validateRate_fst:
  "fst (validateRate rnd nt al) \<longleftrightarrow>
     parseFloat rnd (nt_rate nt) \<noteq> NaN \<and> jsGreaterEq (parseFloat rnd (nt_rate nt)) (Fin 0)"
  using not_less_zero_iff [of "parseFloat rnd (nt_rate nt)"]
  by (auto simp: validateRate_def isNaN_def MINIMUM_RATE_def Let_def)

lemma validateCountryPair_fst:
  "fst (validateCountryPair nt al) \<longleftrightarrow> nt_exportingFrom nt \<noteq> nt_importingTo nt"
  by (simp add: validateCountryPair_def)

lemma validate_snd:
  "snd (validateAllFieldsFilled nt al) = (if fst (validateAllFieldsFilled nt al) then al else showAlert ''Incomplete Information''
                     ''Please fill in all required fields before submitting.'')"
  "snd (validateRate rnd nt al) = (if fst (validateRate rnd nt al) then al else showAlert ''Invalid Rate''
                     ''Please enter a valid positive number for the tariff rate.'')"
  "snd (validateCountryPair nt al) = (if fst (validateCountryPair nt al) then al else showAlert ''Invalid Country Pair''
                     ''Exporting and importing countries must be different.'')"
  by (simp_all add: validateAllFieldsFilled_def validateRate_def validateCountryPair_def Let_def)

lemma validateTariffInput_fst:
  "fst (validateTariffInput rnd nt al) \<longleftrightarrow>
     fst (validateAllFieldsFilled nt al) \<and> fst (validateRate rnd nt al) \<and> fst (validateCountryPair nt al)"
  by (auto simp: validateTariffInput_def validateAllFieldsFilled_def validateRate_def
        validateCountryPair_def Let_def split: prod.splits bool.splits)

lemma validateTariffInput_snd:
  "snd (validateTariffInput rnd nt al) =
     (if \<not> fst (validateAllFieldsFilled nt al) then snd (validateAllFieldsFilled nt al)
      else if \<not> fst (validateRate rnd nt al) then snd (validateRate rnd nt al)
      else snd (validateCountryPair nt al))"
  by (auto simp: validateTariffInput_def validateAllFieldsFilled_def validateRate_def
        validateCountryPair_def Let_def split: prod.splits bool.splits)

text \<open>
  C4. \<open>validateTariffInput\<close> returns false, and shows an alert, if and only if some
  required field of the new-tariff form is empty, or the rate does not parse to a number
  that is at least 0, or the exporting country equals the importing country. When all
  fields are filled, the rate is a non-negative number and the countries differ, it
  returns true and leaves the alert dialog as it was.
\<close>

theorem validateTariffInput_iff:
  "(fst (validateTariffInput rnd nt al) = False \<longleftrightarrow>
      (nt_product nt = [] \<or> nt_exportingFrom nt = [] \<or> nt_importingTo nt = [] \<or> nt_type nt = []
       \<or> nt_rate nt = [] \<or> nt_effectiveDate nt = [] \<or> nt_expirationDate nt = [])
      \<or> \<not> (\<exists>x. parseFloat rnd (nt_rate nt) = x \<and> x \<noteq> NaN \<and> jsGreaterEq x (Fin 0))
      \<or> nt_exportingFrom nt = nt_importingTo nt)
   \<and> (fst (validateTariffInput rnd nt al) = False \<longrightarrow> alert_open (snd (validateTariffInput rnd nt al)))
   \<and> (fst (validateTariffInput rnd nt al) = True \<longrightarrow> snd (validateTariffInput rnd nt al) = al)"
  unfolding validateTariffInput_fst validateTariffInput_snd validate_snd
    validateAllFieldsFilled_fst validateRate_fst validateCountryPair_fst
  by (auto simp: showAlert_def)

theorem validateTariffInput_iff_witness:
  "fst (validateTariffInput Fin steelTariff noAlert) = True
   \<and> snd (validateTariffInput Fin steelTariff noAlert) = noAlert
   \<and> parseFloat Fin (nt_rate steelTariff) = Fin (11 / 2)
   \<and> fst (validateTariffInput Fin (steelTariff\<lparr>nt_importingTo := ''China''\<rparr>) noAlert) = False
   \<and> alert_open (snd (validateTariffInput Fin (steelTariff\<lparr>nt_importingTo := ''China''\<rparr>) noAlert))
   \<and> fst (validateTariffInput Fin (steelTariff\<lparr>nt_rate := ''-1''\<rparr>) noAlert) = False
   \<and> fst (validateTariffInput Fin (steelTariff\<lparr>nt_rate := ''abc''\<rparr>) noAlert) = False"
proof -
  have p: "parseFloat Fin ''5.5'' = Fin (11 / 2)" "parseFloat Fin ''-1'' = Fin (- 1)"
    "parseFloat Fin ''abc'' = NaN"
    by code_simp+
  have g: "jsGreaterEq (Fin (11 / 2)) (Fin 0)" "\<not> jsGreaterEq (Fin (- 1)) (Fin 0)"
    by (simp_all add: jsGreaterEq_def jsLessEq_def jsLess_def)
  show ?thesis
    using validateTariffInput_iff [of Fin steelTariff noAlert]
      validateTariffInput_iff [of Fin "steelTariff\<lparr>nt_importingTo := ''China''\<rparr>" noAlert]
      validateTariffInput_iff [of Fin "steelTariff\<lparr>nt_rate := ''-1''\<rparr>" noAlert]
      validateTariffInput_iff [of Fin "steelTariff\<lparr>nt_rate := ''abc''\<rparr>" noAlert]
    by (simp add: steelTariff_def p g)
qed

section \<open>Lemmas on loading the currencies\<close>

lemma fetchCurrencies_fails:
  "currencyFetchFails env sess net \<Longrightarrow> fetchCurrencies env sess net = Rejected"
  by (auto simp: currencyFetchFails_def fetchCurrencies_def Let_def)

lemma fetchCurrencies_gives:
  "currencyFetchGives env sess net cs \<Longrightarrow> fetchCurrencies env sess net = Resolved cs"
  by (auto simp: currencyFetchGives_def fetchCurrencies_def Let_def)

lemma fallback_codes: "map cur_code (FALLBACK_CURRENCIES today) = [''USD'', ''SGD'', ''EUR'', ''CNY'']"
  by (simp add: FALLBACK_CURRENCIES_def)

lemma list_ex_code: "list_ex (\<lambda>x. cur_code x = c) cs \<longleftrightarrow> c \<in> set (map cur_code cs)"
  by (auto simp: list_ex_iff)

lemma firstCode_hd: "cs \<noteq> [] \<Longrightarrow> firstCode cs = Some (hd (map cur_code cs))"
  by (cases cs) (simp_all add: firstCode_def)

text \<open>
  C5. When the currency fetch fails (a response that is not OK, a payload whose currency
  field is not an array, or an empty currency list), \<open>loadCurrencies\<close> falls back to the
  static list \<open>FALLBACK_CURRENCIES\<close> (USD, SGD, EUR, CNY), and the selected currency
  becomes the previously selected code if one is set and the first fallback code
  otherwise. On success the fetched list is used; a selected currency is kept when its
  code is in that list, and the first fetched code is chosen when it is not in the list
  (or when the calculator form has none selected). This holds for the calculator form and
  for the comparison panel.
\<close>

theorem loadCurrencies_fallback:
  "(currencyFetchFails env sess net \<longrightarrow>
      availableCurrencies (calc_loadCurrencies today env sess net st) = FALLBACK_CURRENCIES today
      \<and> cf_currency (calc_formData (calc_loadCurrencies today env sess net st))
          = (case cf_currency (calc_formData st) of
               None \<Rightarrow> Some ''USD''
             | Some c \<Rightarrow> if c \<noteq> [] then Some c else Some ''USD'')
      \<and> currencies (cmp_loadCurrencies today env sess net ct) = FALLBACK_CURRENCIES today
      \<and> cmp_currency (cmp_formData (cmp_loadCurrencies today env sess net ct))
          = (if cmp_currency (cmp_formData ct) \<noteq> [] then cmp_currency (cmp_formData ct) else ''USD'')
      \<and> map cur_code (FALLBACK_CURRENCIES today) = [''USD'', ''SGD'', ''EUR'', ''CNY''])
   \<and> (currencyFetchGives env sess net cs \<longrightarrow>
      availableCurrencies (calc_loadCurrencies today env sess net st) = cs
      \<and> currencies (cmp_loadCurrencies today env sess net ct) = cs
      \<and> (\<forall>c. cf_currency (calc_formData st) = Some c \<and> c \<noteq> [] \<and> c \<in> set (map cur_code cs)
            \<longrightarrow> cf_currency (calc_formData (calc_loadCurrencies today env sess net st)) = Some c)
      \<and> (\<forall>c. cf_currency (calc_formData st) = Some c \<and> c \<notin> set (map cur_code cs)
            \<longrightarrow> cf_currency (calc_formData (calc_loadCurrencies today env sess net st))
                  = Some (hd (map cur_code cs)))
      \<and> (cf_currency (calc_formData st) = None \<or> cf_currency (calc_formData st) = Some []
            \<longrightarrow> cf_currency (calc_formData (calc_loadCurrencies today env sess net st))
                  = Some (hd (map cur_code cs)))
      \<and> cmp_currency (cmp_formData (cmp_loadCurrencies today env sess net ct))
          = (if cmp_currency (cmp_formData ct) \<in> set (map cur_code cs)
             then cmp_currency (cmp_formData ct) else hd (map cur_code cs)))"
proof (intro conjI impI)
  assume f: "currencyFetchFails env sess net"
  note r = fetchCurrencies_fails [OF f]
  show "availableCurrencies (calc_loadCurrencies today env sess net st) = FALLBACK_CURRENCIES today"
    by (simp add: calc_loadCurrencies_def r)
  show "cf_currency (calc_formData (calc_loadCurrencies today env sess net st))
          = (case cf_currency (calc_formData st) of
               None \<Rightarrow> Some ''USD''
             | Some c \<Rightarrow> if c \<noteq> [] then Some c else Some ''USD'')"
    by (simp add: calc_loadCurrencies_def r orElse_def truthy_def FALLBACK_CURRENCIES_def Let_def
          split: option.splits)
  show "currencies (cmp_loadCurrencies today env sess net ct) = FALLBACK_CURRENCIES today"
    by (simp add: cmp_loadCurrencies_def r)
  show "cmp_currency (cmp_formData (cmp_loadCurrencies today env sess net ct))
          = (if cmp_currency (cmp_formData ct) \<noteq> [] then cmp_currency (cmp_formData ct) else ''USD'')"
    by (simp add: cmp_loadCurrencies_def r orElse_def truthy_def FALLBACK_CURRENCIES_def Let_def)
  show "map cur_code (FALLBACK_CURRENCIES today) = [''USD'', ''SGD'', ''EUR'', ''CNY'']"
    by (rule fallback_codes)
next
  assume g: "currencyFetchGives env sess net cs"
  note r = fetchCurrencies_gives [OF g]
  from g have ne: "cs \<noteq> []" by (auto simp: currencyFetchGives_def)
  note fc = firstCode_hd [OF ne]
  show "availableCurrencies (calc_loadCurrencies today env sess net st) = cs"
    by (simp add: calc_loadCurrencies_def r)
  show "currencies (cmp_loadCurrencies today env sess net ct) = cs"
    by (simp add: cmp_loadCurrencies_def r)
  show "\<forall>c. cf_currency (calc_formData st) = Some c \<and> c \<noteq> [] \<and> c \<in> set (map cur_code cs)
            \<longrightarrow> cf_currency (calc_formData (calc_loadCurrencies today env sess net st)) = Some c"
    by (simp add: calc_loadCurrencies_def r list_ex_code truthy_def Let_def)
  show "\<forall>c. cf_currency (calc_formData st) = Some c \<and> c \<notin> set (map cur_code cs)
            \<longrightarrow> cf_currency (calc_formData (calc_loadCurrencies today env sess net st))
                  = Some (hd (map cur_code cs))"
    by (simp add: calc_loadCurrencies_def r list_ex_code fc Let_def)
  show "cf_currency (calc_formData st) = None \<or> cf_currency (calc_formData st) = Some []
            \<Longrightarrow> cf_currency (calc_formData (calc_loadCurrencies today env sess net st))
                  = Some (hd (map cur_code cs))"
    by (auto simp: calc_loadCurrencies_def r fc truthy_def Let_def)
  show "cmp_currency (cmp_formData (cmp_loadCurrencies today env sess net ct))
          = (if cmp_currency (cmp_formData ct) \<in> set (map cur_code cs)
             then cmp_currency (cmp_formData ct) else hd (map cur_code cs))"
    by (simp add: cmp_loadCurrencies_def r list_ex_code fc Let_def)
qed

theorem loadCurrencies_fallback_witness:
  "currencyFetchFails None (Resolved (Some ''tok'')) (\<lambda>_. Resolved serverError)
   \<and> availableCurrencies (calc_loadCurrencies ''2025-06-01'' None (Resolved (Some ''tok''))
         (\<lambda>_. Resolved serverError) (calcForm None)) = FALLBACK_CURRENCIES ''2025-06-01''
   \<and> cf_currency (calc_formData (calc_loadCurrencies ''2025-06-01'' None (Resolved (Some ''tok''))
         (\<lambda>_. Resolved serverError) (calcForm None))) = Some ''USD''
   \<and> cmp_currency (cmp_formData (cmp_loadCurrencies ''2025-06-01'' None (Resolved (Some ''tok''))
         (\<lambda>_. Resolved serverError) (cmpForm ''EUR''))) = ''EUR''
   \<and> currencyFetchGives None (Resolved (Some ''tok'')) (\<lambda>_. Resolved currenciesOk) twoCurrencies
   \<and> cf_currency (calc_formData (calc_loadCurrencies ''2025-06-01'' None (Resolved (Some ''tok''))
         (\<lambda>_. Resolved currenciesOk) (calcForm (Some ''JPY'')))) = Some ''JPY''
   \<and> cf_currency (calc_formData (calc_loadCurrencies ''2025-06-01'' None (Resolved (Some ''tok''))
         (\<lambda>_. Resolved currenciesOk) (calcForm (Some ''USD'')))) = Some ''GBP''
   \<and> cmp_currency (cmp_formData (cmp_loadCurrencies ''2025-06-01'' None (Resolved (Some ''tok''))
         (\<lambda>_. Resolved currenciesOk) (cmpForm ''USD''))) = ''GBP''"
proof -
  have f: "currencyFetchFails None (Resolved (Some ''tok'')) (\<lambda>_. Resolved serverError)"
    by (simp add: currencyFetchFails_def getAuthToken_def truthy_def serverError_def)
  have g: "currencyFetchGives None (Resolved (Some ''tok'')) (\<lambda>_. Resolved currenciesOk) twoCurrencies"
    by (simp add: currencyFetchGives_def getAuthToken_def truthy_def currenciesOk_def twoCurrencies_def)
  show ?thesis
    using f g
      loadCurrencies_fallback [of None "Resolved (Some ''tok'')" "\<lambda>_. Resolved serverError"
        "''2025-06-01''" "calcForm None" "cmpForm ''EUR''" twoCurrencies]
      loadCurrencies_fallback [of None "Resolved (Some ''tok'')" "\<lambda>_. Resolved currenciesOk"
        "''2025-06-01''" "calcForm (Some ''JPY'')" "cmpForm ''USD''" twoCurrencies]
      loadCurrencies_fallback [of None "Resolved (Some ''tok'')" "\<lambda>_. Resolved currenciesOk"
        "''2025-06-01''" "calcForm (Some ''USD'')" "cmpForm ''USD''" twoCurrencies]
    by (simp add: calcForm_def cmpForm_def twoCurrencies_def)
qed



section \<open>Lemmas on the simulator\<close>

lemma parseFloat_empty: "parseFloat rnd [] = NaN"
  by (simp add: parseFloat_def readSign_def)

lemma greater_not_lessEq: "jsGreater a (Fin 0) \<Longrightarrow> \<not> jsLessEq a (Fin 0)"
  by (cases a) (auto simp: jsGreater_def jsLessEq_def jsLess_def)

lemma greaterEq_not_less: "jsGreaterEq a (Fin 0) \<Longrightarrow> \<not> jsLess a (Fin 0)"
  by (cases a) (auto simp: jsGreaterEq_def jsLessEq_def jsLess_def)

lemma greater_parse_truthy: "jsGreater (parseFloat rnd s) (Fin 0) \<Longrightarrow> truthy s"
  by (cases s) (auto simp: parseFloat_empty truthy_def jsGreater_def jsLess_def)

lemma greaterEq_parse_truthy: "jsGreaterEq (parseFloat rnd s) (Fin 0) \<Longrightarrow> truthy s"
  by (cases s) (auto simp: parseFloat_empty truthy_def jsGreaterEq_def jsLessEq_def)

lemma handleSubmit_passes:
  assumes "passesChecks rnd (sim_formData st)"
  shows "handleSubmit rnd fmt env sess net en st =
           st\<lparr>sim_error := [], sim_isLoading := False,
              calculationResult := Some ((localResult rnd fmt (sim_formData st))
                \<lparr>res_calculationId :=
                   (if optTruthy (saveToHistory env sess net en (localResult rnd fmt (sim_formData st)))
                    then saveToHistory env sess net en (localResult rnd fmt (sim_formData st))
                    else Some (JStr (localId (now2 en) (rand2 en))))\<rparr>)\<rparr>"
  using assms by (simp add: handleSubmit_def passesChecks_def truthy_def Let_def)

lemma handleSubmit_rejects:
  assumes "\<not> passesChecks rnd (sim_formData st)"
  shows "sim_error (handleSubmit rnd fmt env sess net en st) \<noteq> []
         \<and> calculationResult (handleSubmit rnd fmt env sess net en st) = calculationResult st"
  using assms by (auto simp: handleSubmit_def passesChecks_def truthy_def Let_def)

lemma valid_passes:
  assumes "sim_product fd \<noteq> []" "sim_unit fd \<noteq> []" "sim_exportingFrom fd \<noteq> []" "sim_importingTo fd \<noteq> []"
    "jsGreater (parseFloat rnd (sim_quantity fd)) (Fin 0)"
    "jsGreater (parseFloat rnd (sim_customCost fd)) (Fin 0)"
    "jsGreaterEq (parseFloat rnd (sim_tariffRate fd)) (Fin 0)"
  shows "passesChecks rnd fd"
  using assms greater_parse_truthy [where rnd = rnd and s = "sim_quantity fd"]
    greater_parse_truthy [where rnd = rnd and s = "sim_customCost fd"]
    greaterEq_parse_truthy [where rnd = rnd and s = "sim_tariffRate fd"]
  by (simp add: passesChecks_def truthy_def greater_not_lessEq greaterEq_not_less)

lemma localResult_costs:
  "res_productCost (localResult rnd fmt fd)
     = jsMul rnd (parseFloat rnd (sim_customCost fd)) (parseFloat rnd (sim_quantity fd))"
  "sim_tariffType fd = ''percentage'' \<Longrightarrow> res_tariffCost (localResult rnd fmt fd)
     = jsDiv rnd (jsMul rnd (jsMul rnd (parseFloat rnd (sim_customCost fd)) (parseFloat rnd (sim_quantity fd)))
                    (parseFloat rnd (sim_tariffRate fd))) (Fin 100)"
  "sim_tariffType fd = ''fixed'' \<Longrightarrow> res_tariffCost (localResult rnd fmt fd)
     = jsMul rnd (parseFloat rnd (sim_tariffRate fd)) (parseFloat rnd (sim_quantity fd))"
  "res_totalCost (localResult rnd fmt fd)
     = jsAdd rnd (res_productCost (localResult rnd fmt fd)) (res_tariffCost (localResult rnd fmt fd))"
  "map bi_amount (res_breakdown (localResult rnd fmt fd))
     = [res_productCost (localResult rnd fmt fd), res_tariffCost (localResult rnd fmt fd)]"
  by (simp_all add: localResult_def Let_def)

lemma parse_samples:
  "parseFloat Fin ''5'' = Fin 5" "parseFloat Fin ''2'' = Fin 2" "parseFloat Fin ''10'' = Fin 10"
  by code_simp+

lemma order_samples:
  "jsGreater (Fin 2) (Fin 0)" "jsGreater (Fin 10) (Fin 0)" "jsGreaterEq (Fin 5) (Fin 0)"
  by (simp_all add: jsGreater_def jsGreaterEq_def jsLessEq_def jsLess_def)

text \<open>
  C1. For every submission of the simulator calculator whose inputs parse to a quantity
  \<open>q > 0\<close>, a unit cost \<open>c > 0\<close> and a tariff rate \<open>r \<ge> 0\<close> (the text fields being
  filled), a result is rendered and it satisfies: the product cost is \<open>c * q\<close>; the tariff
  cost is \<open>(c * q * r) / 100\<close> for the tariff type \<open>percentage\<close> and \<open>r * q\<close> for the type
  \<open>fixed\<close>; and the total cost is the product cost plus the tariff cost. The two rows of
  the breakdown carry these amounts. Whenever a submission ends without an error message,
  its result has these totals. The products, the quotient and the sum are those of
  JavaScript, under any rounding.
\<close>

theorem handleSubmit_totals:
  "(sim_product (sim_formData st) \<noteq> [] \<and> sim_unit (sim_formData st) \<noteq> []
      \<and> sim_exportingFrom (sim_formData st) \<noteq> [] \<and> sim_importingTo (sim_formData st) \<noteq> []
      \<and> parseFloat rnd (sim_quantity (sim_formData st)) = q \<and> jsGreater q (Fin 0)
      \<and> parseFloat rnd (sim_customCost (sim_formData st)) = c \<and> jsGreater c (Fin 0)
      \<and> parseFloat rnd (sim_tariffRate (sim_formData st)) = r \<and> jsGreaterEq r (Fin 0)
    \<longrightarrow> (\<exists>res. calculationResult (handleSubmit rnd fmt env sess net en st) = Some res
          \<and> sim_error (handleSubmit rnd fmt env sess net en st) = []
          \<and> res_productCost res = jsMul rnd c q
          \<and> (sim_tariffType (sim_formData st) = ''percentage''
               \<longrightarrow> res_tariffCost res = jsDiv rnd (jsMul rnd (jsMul rnd c q) r) (Fin 100))
          \<and> (sim_tariffType (sim_formData st) = ''fixed''
               \<longrightarrow> res_tariffCost res = jsMul rnd r q)
          \<and> res_totalCost res = jsAdd rnd (res_productCost res) (res_tariffCost res)
          \<and> map bi_amount (res_breakdown res) = [res_productCost res, res_tariffCost res]))
   \<and> (sim_error (handleSubmit rnd fmt env sess net en st) = []
    \<longrightarrow> (\<exists>res. calculationResult (handleSubmit rnd fmt env sess net en st) = Some res
          \<and> res_productCost res = jsMul rnd (res_costPerUnit res) (res_quantity res)
          \<and> res_totalCost res = jsAdd rnd (res_productCost res) (res_tariffCost res)))"
proof (intro conjI impI)
  assume h: "sim_product (sim_formData st) \<noteq> [] \<and> sim_unit (sim_formData st) \<noteq> []
      \<and> sim_exportingFrom (sim_formData st) \<noteq> [] \<and> sim_importingTo (sim_formData st) \<noteq> []
      \<and> parseFloat rnd (sim_quantity (sim_formData st)) = q \<and> jsGreater q (Fin 0)
      \<and> parseFloat rnd (sim_customCost (sim_formData st)) = c \<and> jsGreater c (Fin 0)
      \<and> parseFloat rnd (sim_tariffRate (sim_formData st)) = r \<and> jsGreaterEq r (Fin 0)"
  then have "passesChecks rnd (sim_formData st)"
    by (intro valid_passes) auto
  note hs = handleSubmit_passes [OF this, where fmt = fmt and env = env and sess = sess and net = net and en = en]
  from h show "\<exists>res. calculationResult (handleSubmit rnd fmt env sess net en st) = Some res
          \<and> sim_error (handleSubmit rnd fmt env sess net en st) = []
          \<and> res_productCost res = jsMul rnd c q
          \<and> (sim_tariffType (sim_formData st) = ''percentage''
               \<longrightarrow> res_tariffCost res = jsDiv rnd (jsMul rnd (jsMul rnd c q) r) (Fin 100))
          \<and> (sim_tariffType (sim_formData st) = ''fixed''
               \<longrightarrow> res_tariffCost res = jsMul rnd r q)
          \<and> res_totalCost res = jsAdd rnd (res_productCost res) (res_tariffCost res)
          \<and> map bi_amount (res_breakdown res) = [res_productCost res, res_tariffCost res]"
    unfolding hs using localResult_costs [where rnd = rnd and fmt = fmt and fd = "sim_formData st"]
    by (auto simp del: One_nat_def)
next
  assume e: "sim_error (handleSubmit rnd fmt env sess net en st) = []"
  then have "passesChecks rnd (sim_formData st)"
    using handleSubmit_rejects [where rnd = rnd and st = st and fmt = fmt and env = env and sess = sess and net = net and en = en] by blast
  note hs = handleSubmit_passes [OF this, where fmt = fmt and env = env and sess = sess and net = net and en = en]
  show "\<exists>res. calculationResult (handleSubmit rnd fmt env sess net en st) = Some res
          \<and> res_productCost res = jsMul rnd (res_costPerUnit res) (res_quantity res)
          \<and> res_totalCost res = jsAdd rnd (res_productCost res) (res_tariffCost res)"
    unfolding hs by (simp add: localResult_def Let_def)
qed

theorem handleSubmit_totals_witness:
  "jsGreater (parseFloat Fin (sim_quantity steelForm)) (Fin 0)
   \<and> jsGreater (parseFloat Fin (sim_customCost steelForm)) (Fin 0)
   \<and> jsGreaterEq (parseFloat Fin (sim_tariffRate steelForm)) (Fin 0)
   \<and> (\<exists>res. calculationResult (handleSubmit Fin fmtSample None (Resolved (Some ''tok''))
               (\<lambda>_. Resolved savedOk) entropy0 (simState steelForm)) = Some res
         \<and> res_productCost res = Fin 20 \<and> res_tariffCost res = Fin 1 \<and> res_totalCost res = Fin 21)
   \<and> (\<exists>res. calculationResult (handleSubmit Fin fmtSample None (Resolved (Some ''tok''))
               (\<lambda>_. Resolved savedOk) entropy0
               (simState (steelForm\<lparr>sim_tariffType := ''fixed''\<rparr>))) = Some res
         \<and> res_productCost res = Fin 20 \<and> res_tariffCost res = Fin 10 \<and> res_totalCost res = Fin 30)"
proof -
  have pre: "sim_product (sim_formData (simState fd)) \<noteq> [] \<and> sim_unit (sim_formData (simState fd)) \<noteq> []
      \<and> sim_exportingFrom (sim_formData (simState fd)) \<noteq> []
      \<and> sim_importingTo (sim_formData (simState fd)) \<noteq> []
      \<and> parseFloat Fin (sim_quantity (sim_formData (simState fd))) = Fin 2
      \<and> jsGreater (Fin 2) (Fin 0)
      \<and> parseFloat Fin (sim_customCost (sim_formData (simState fd))) = Fin 10
      \<and> jsGreater (Fin 10) (Fin 0)
      \<and> parseFloat Fin (sim_tariffRate (sim_formData (simState fd))) = Fin 5
      \<and> jsGreaterEq (Fin 5) (Fin 0)"
    if "fd = steelForm \<or> fd = steelForm\<lparr>sim_tariffType := ''fixed''\<rparr>" for fd
    using that by (auto simp: steelForm_def simState_def parse_samples order_samples)
  have a: "\<exists>res. calculationResult (handleSubmit Fin fmtSample None (Resolved (Some ''tok''))
               (\<lambda>_. Resolved savedOk) entropy0 (simState steelForm)) = Some res
         \<and> res_productCost res = Fin 20 \<and> res_tariffCost res = Fin 1 \<and> res_totalCost res = Fin 21"
    using handleSubmit_totals [where st = "simState steelForm" and rnd = Fin and q = "Fin 2"
      and c = "Fin 10" and r = "Fin 5" and fmt = fmtSample and env = None
      and sess = "Resolved (Some ''tok'')" and net = "\<lambda>_. Resolved savedOk" and en = entropy0,
      THEN conjunct1, THEN mp, OF pre]
    by (auto simp: steelForm_def simState_def)
  have b: "\<exists>res. calculationResult (handleSubmit Fin fmtSample None (Resolved (Some ''tok''))
               (\<lambda>_. Resolved savedOk) entropy0
               (simState (steelForm\<lparr>sim_tariffType := ''fixed''\<rparr>))) = Some res
         \<and> res_productCost res = Fin 20 \<and> res_tariffCost res = Fin 10 \<and> res_totalCost res = Fin 30"
    using handleSubmit_totals [where st = "simState (steelForm\<lparr>sim_tariffType := ''fixed''\<rparr>)"
      and rnd = Fin and q = "Fin 2"
      and c = "Fin 10" and r = "Fin 5" and fmt = fmtSample and env = None
      and sess = "Resolved (Some ''tok'')" and net = "\<lambda>_. Resolved savedOk" and en = entropy0,
      THEN conjunct1, THEN mp, OF pre]
    by (auto simp: steelForm_def simState_def)
  from a b show ?thesis
    by (simp add: steelForm_def parse_samples order_samples)
qed

text \<open>
  C3. The claim is that a submission of the simulator calculator whose exporting and
  importing countries are equal is rejected. The handler has no such check: when the
  other inputs are filled and numerically valid, a submission with equal countries sets no
  error and produces a calculation result.
\<close>

theorem handleSubmit_same_country:
  "sim_product (sim_formData st) \<noteq> [] \<and> sim_unit (sim_formData st) \<noteq> []
      \<and> sim_exportingFrom (sim_formData st) \<noteq> []
      \<and> sim_importingTo (sim_formData st) = sim_exportingFrom (sim_formData st)
      \<and> jsGreater (parseFloat rnd (sim_quantity (sim_formData st))) (Fin 0)
      \<and> jsGreater (parseFloat rnd (sim_customCost (sim_formData st))) (Fin 0)
      \<and> jsGreaterEq (parseFloat rnd (sim_tariffRate (sim_formData st))) (Fin 0)
    \<longrightarrow> sim_error (handleSubmit rnd fmt env sess net en st) = []
        \<and> calculationResult (handleSubmit rnd fmt env sess net en st) \<noteq> None"
proof
  assume h: "sim_product (sim_formData st) \<noteq> [] \<and> sim_unit (sim_formData st) \<noteq> []
      \<and> sim_exportingFrom (sim_formData st) \<noteq> []
      \<and> sim_importingTo (sim_formData st) = sim_exportingFrom (sim_formData st)
      \<and> jsGreater (parseFloat rnd (sim_quantity (sim_formData st))) (Fin 0)
      \<and> jsGreater (parseFloat rnd (sim_customCost (sim_formData st))) (Fin 0)
      \<and> jsGreaterEq (parseFloat rnd (sim_tariffRate (sim_formData st))) (Fin 0)"
  then have "passesChecks rnd (sim_formData st)"
    by (intro valid_passes) auto
  note hs = handleSubmit_passes [OF this, where fmt = fmt and env = env and sess = sess and net = net and en = en]
  show "sim_error (handleSubmit rnd fmt env sess net en st) = []
        \<and> calculationResult (handleSubmit rnd fmt env sess net en st) \<noteq> None"
    unfolding hs by simp
qed

theorem handleSubmit_same_country_witness:
  "sim_importingTo (steelForm\<lparr>sim_importingTo := ''China''\<rparr>)
     = sim_exportingFrom (steelForm\<lparr>sim_importingTo := ''China''\<rparr>)
   \<and> sim_error (handleSubmit Fin fmtSample None (Resolved (Some ''tok''))
        (\<lambda>_. Resolved savedOk) entropy0 (simState (steelForm\<lparr>sim_importingTo := ''China''\<rparr>))) = []
   \<and> (\<exists>res. calculationResult (handleSubmit Fin fmtSample None (Resolved (Some ''tok''))
        (\<lambda>_. Resolved savedOk) entropy0 (simState (steelForm\<lparr>sim_importingTo := ''China''\<rparr>)))
        = Some res
       \<and> res_exportingFrom res = ''China'' \<and> res_importingTo res = ''China''
       \<and> res_totalCost res = Fin 21 \<and> res_calculationId res = Some (JNum 42))"
  using handleSubmit_same_country [where st = "simState (steelForm\<lparr>sim_importingTo := ''China''\<rparr>)"
      and rnd = Fin and fmt = fmtSample and env = None
      and sess = "Resolved (Some ''tok'')" and net = "\<lambda>_. Resolved savedOk" and en = entropy0]
  by (simp add: steelForm_def simState_def parse_samples order_samples handleSubmit_def
        localResult_def saveToHistory_def savedOk_def idOf_def getProp_def optTruthy_def
        truthy_def jsLessEq_def jsLess_def Let_def)

section \<open>Lemmas on merging the tariffs\<close>

lemma sameTriple_triple: "sameTriple m t \<longleftrightarrow> triple t = triple m"
  by (auto simp: sameTriple_def triple_def)

lemma mergeStep_upsert: "mergeStep ts m = upsert m ts"
proof (induction ts)
  case Nil
  show ?case by (simp add: mergeStep_def)
next
  case (Cons t ts)
  then show ?case
    by (auto simp: mergeStep_def sameTriple_triple split: option.splits)
qed

lemma lastWith_triple: "lastWith k ms = Some x \<Longrightarrow> triple x = k"
  by (induction ms) (auto split: option.splits if_splits)

lemma fold_head:
  "triple h = k \<Longrightarrow>
   foldl mergeStep (h # bs) ms
     = (case lastWith k ms of None \<Rightarrow> h | Some m \<Rightarrow> m)
       # foldl mergeStep bs (filter (\<lambda>x. triple x \<noteq> k) ms)"
proof (induction ms arbitrary: h bs)
  case Nil
  then show ?case by simp
next
  case (Cons m ms)
  show ?case
  proof (cases "triple m = k")
    case True
    with Cons.prems have "mergeStep (h # bs) m = m # bs" by (simp add: mergeStep_upsert)
    with Cons.IH [of m bs] True show ?thesis
      by (simp split: option.splits)
  next
    case False
    with Cons.prems have "mergeStep (h # bs) m = h # mergeStep bs m" by (auto simp: mergeStep_upsert)
    with Cons.IH [of h "mergeStep bs m"] Cons.prems False show ?thesis
      by (simp split: option.splits)
  qed
qed

lemma fold_empty: "foldl mergeStep [] ms = lastPerTriple ms"
proof (induction ms rule: lastPerTriple.induct)
  case 1
  show ?case by simp
next
  case (2 m ms)
  have "foldl mergeStep [] (m # ms) = foldl mergeStep [m] ms" by (simp add: mergeStep_def)
  also have "\<dots> = override m ms # foldl mergeStep [] (filter (\<lambda>x. triple x \<noteq> triple m) ms)"
    using fold_head [of m "triple m" "[]" ms] by (simp add: override_def)
  finally show ?case using 2 by simp
qed

lemma mergeTariffs_Nil: "mergeTariffs [] ms = lastPerTriple ms"
  by (simp add: mergeTariffs_def fold_empty)

lemma mergeTariffs_Cons:
  "mergeTariffs (b # bs) ms = override b ms # mergeTariffs bs (filter (\<lambda>x. triple x \<noteq> triple b) ms)"
  using fold_head [of b "triple b" bs ms] by (simp add: mergeTariffs_def override_def)

lemma lastWith_None_iff: "lastWith k ms = None \<longleftrightarrow> k \<notin> triple ` set ms"
  by (induction ms) (auto split: option.splits)

lemma lastWith_filter_other:
  "k \<noteq> k' \<Longrightarrow> lastWith k (filter (\<lambda>x. triple x \<noteq> k') ms) = lastWith k ms"
  by (induction ms) (auto split: option.splits)

lemma lastWith_in_set: "lastWith k ms = Some x \<Longrightarrow> x \<in> set ms"
  by (induction ms) (auto split: option.splits if_splits)

lemma override_filter_same:
  "triple b = k \<Longrightarrow> override b (filter (\<lambda>x. triple x \<noteq> k) ms) = b"
proof -
  assume "triple b = k"
  then have "lastWith (triple b) (filter (\<lambda>x. triple x \<noteq> k) ms) = None"
    by (auto simp: lastWith_None_iff)
  then show ?thesis by (simp add: override_def)
qed

lemma override_filter_other:
  "triple b \<noteq> k \<Longrightarrow> override b (filter (\<lambda>x. triple x \<noteq> k) ms) = override b ms"
  by (simp add: override_def lastWith_filter_other)

lemma override_unmatched: "triple b \<notin> triple ` set ms \<Longrightarrow> override b ms = b"
  using lastWith_None_iff [of "triple b" ms] by (simp add: override_def)

lemma length_mergeTariffs: "length bs \<le> length (mergeTariffs bs ms)"
  by (induction bs arbitrary: ms) (simp_all add: mergeTariffs_Cons)

lemma nth_mergeTariffs:
  "i < length bs \<Longrightarrow>
   mergeTariffs bs ms ! i
     = (if triple (bs ! i) \<in> triple ` set (take i bs) then bs ! i else override (bs ! i) ms)"
proof (induction bs arbitrary: i ms)
  case Nil
  then show ?case by simp
next
  case (Cons b bs)
  show ?case
  proof (cases i)
    case 0
    then show ?thesis by (simp add: mergeTariffs_Cons)
  next
    case (Suc j)
    with Cons.prems have j: "j < length bs" by simp
    let ?ms = "filter (\<lambda>x. triple x \<noteq> triple b) ms"
    have "mergeTariffs (b # bs) ms ! i = mergeTariffs bs ?ms ! j"
      using Suc by (simp add: mergeTariffs_Cons)
    also have "\<dots> = (if triple (bs ! j) \<in> triple ` set (take j bs) then bs ! j
                     else override (bs ! j) ?ms)"
      by (rule Cons.IH [OF j])
    also have "\<dots> = (if triple ((b # bs) ! i) \<in> triple ` set (take i (b # bs)) then (b # bs) ! i
                     else override ((b # bs) ! i) ms)"
      using Suc by (auto simp: override_filter_same override_filter_other)
    finally show ?thesis .
  qed
qed

lemma drop_mergeTariffs:
  "drop (length bs) (mergeTariffs bs ms)
     = lastPerTriple (filter (\<lambda>m. triple m \<notin> triple ` set bs) ms)"
proof (induction bs arbitrary: ms)
  case Nil
  show ?case by (simp add: mergeTariffs_Nil)
next
  case (Cons b bs)
  have "filter (\<lambda>m. triple m \<notin> triple ` set bs) (filter (\<lambda>x. triple x \<noteq> triple b) ms)
        = filter (\<lambda>m. triple m \<notin> triple ` set (b # bs)) ms"
    by (induction ms) auto
  with Cons [of "filter (\<lambda>x. triple x \<noteq> triple b) ms"] show ?case
    by (simp add: mergeTariffs_Cons)
qed

lemma lastPerTriple_distinct:
  "distinct (map triple ms) \<Longrightarrow> lastPerTriple ms = ms"
proof (induction ms rule: lastPerTriple.induct)
  case 1
  show ?case by simp
next
  case (2 m ms)
  from 2(2) have nin: "triple m \<notin> triple ` set ms" and d: "distinct (map triple ms)" by auto
  from nin have f: "filter (\<lambda>x. triple x \<noteq> triple m) ms = ms"
    by (induction ms) auto
  from 2(1) d f have "lastPerTriple ms = ms" by simp
  with nin f show ?case by (simp add: override_unmatched)
qed

lemma mergeClaimed_distinct:
  "distinct (map triple ms) \<Longrightarrow> mergeTariffs bs ms = mergeClaimed bs ms"
proof (induction bs arbitrary: ms)
  case Nil
  then show ?case by (simp add: mergeTariffs_Nil lastPerTriple_distinct)
next
  case (Cons b bs)
  have "distinct (map triple (filter (\<lambda>x. triple x \<noteq> triple b) ms))"
    using Cons.prems by (simp add: distinct_map_filter)
  from Cons.IH [OF this] show ?case by (simp add: mergeTariffs_Cons)
qed

lemma lastPerTriple_props:
  "distinct (map triple (lastPerTriple ms))
   \<and> triple ` set (lastPerTriple ms) = triple ` set ms
   \<and> (\<forall>x \<in> set (lastPerTriple ms). lastWith (triple x) ms = Some x)"
proof (induction ms rule: lastPerTriple.induct)
  case 1
  show ?case by simp
next
  case (2 m ms)
  let ?f = "filter (\<lambda>x. triple x \<noteq> triple m) ms"
  have tr: "triple (override m ms) = triple m"
    by (auto simp: override_def dest: lastWith_triple split: option.splits)
  have lw: "lastWith (triple m) (m # ms) = Some (override m ms)"
    by (simp add: override_def split: option.splits)
  have d: "distinct (map triple (lastPerTriple (m # ms)))"
    using 2 tr by auto
  have s: "triple ` set (lastPerTriple (m # ms)) = triple ` set (m # ms)"
    using 2 tr by auto
  have l: "lastWith (triple x) (m # ms) = Some x" if "x \<in> set (lastPerTriple (m # ms))" for x
  proof (cases "x = override m ms")
    case True
    with lw tr show ?thesis by simp
  next
    case False
    with that have x: "x \<in> set (lastPerTriple ?f)" by simp
    with 2 have lx: "lastWith (triple x) ?f = Some x" by blast
    from x 2 have "triple x \<in> triple ` set ?f" by blast
    then have ne: "triple x \<noteq> triple m" by auto
    with lx have "lastWith (triple x) ms = Some x" by (simp add: lastWith_filter_other)
    then show ?thesis by simp
  qed
  from d s l show ?case by blast
qed


lemma forEachFrom_fold:
  "dst \<noteq> src \<Longrightarrow> dst < length h \<Longrightarrow> src < length h \<Longrightarrow> n = length (h ! src) \<Longrightarrow>
   forEachFrom k n src dst h = h[dst := foldl mergeStep (h ! dst) (drop k (h ! src))]"
proof (induction k n src dst h rule: forEachFrom.induct)
  case (1 k n src dst h)
  show ?case
  proof (cases "k < n")
    case True
    let ?h = "h[dst := mergeStep (h ! dst) (h ! src ! k)]"
    from True 1(6) have kl: "k < length (h ! src)" by simp
    have src: "?h ! src = h ! src" using 1(3) by simp
    have dst: "?h ! dst = mergeStep (h ! dst) (h ! src ! k)" using 1(4) by simp
    have "forEachFrom k n src dst h = forEachFrom (Suc k) n src dst ?h"
      using True kl by simp
    also have "\<dots> = ?h[dst := foldl mergeStep (?h ! dst) (drop (Suc k) (?h ! src))]"
      using True kl 1(3-6) by (intro 1(1)) (simp_all only: length_list_update src, simp_all)
    also have "\<dots> = h[dst := foldl mergeStep (h ! dst) (h ! src ! k # drop (Suc k) (h ! src))]"
      by (simp add: src dst)
    also have "h ! src ! k # drop (Suc k) (h ! src) = drop k (h ! src)"
      using kl by (rule Cons_nth_drop_Suc)
    finally show ?thesis .
  next
    case False
    with 1(6) have "drop k (h ! src) = []" by simp
    with False show ?thesis by simp
  qed
qed

lemma mergeTariffs_heap_eq:
  assumes "g < length h" "m < length h"
  shows "mergeTariffs_heap h g m = (h @ [mergeTariffs (h ! g) (h ! m)], length h)"
proof -
  let ?h1 = "h @ [h ! g]"
  have m1: "?h1 ! m = h ! m" using assms by (simp add: nth_append)
  have "forEachFrom 0 (length (?h1 ! m)) m (length h) ?h1
        = ?h1[length h := foldl mergeStep (?h1 ! length h) (drop 0 (?h1 ! m))]"
    using assms by (intro forEachFrom_fold) simp_all
  also have "\<dots> = h @ [mergeTariffs (h ! g) (h ! m)]"
    by (simp add: m1 mergeTariffs_def)
  finally show ?thesis by (simp add: mergeTariffs_heap_def Let_def)
qed

lemma sample_triples:
  "triple riceTariff = (''Rice'', ''India'', ''Japan'')"
  "triple steelGlobal = (''Steel'', ''China'', ''Singapore'')"
  "triple steelModified = (''Steel'', ''China'', ''Singapore'')"
  "triple wheatModified1 = (''Wheat'', ''USA'', ''Japan'')"
  "triple wheatModified2 = (''Wheat'', ''USA'', ''Japan'')"
  by (simp_all add: triple_def riceTariff_def steelGlobal_def steelModified_def
        wheatModified1_def wheatModified2_def)

lemma sample_merge:
  "mergeTariffs [riceTariff, steelGlobal] [steelModified, wheatModified1]
     = [riceTariff, steelModified, wheatModified1]"
  "mergeTariffs [riceTariff] [wheatModified1, wheatModified2] = [riceTariff, wheatModified2]"
  by (simp_all add: mergeTariffs_def mergeStep_def sameTriple_triple sample_triples)

text \<open>
  C8 (amended). \<open>mergeTariffs\<close> gives the base global tariff list with each modified
  tariff applied as an override against the list built so far. The result is at least as
  long as the base list. At a position of the base list stands the last modified tariff
  with the triple (product, exporting country, importing country) of the base entry, if
  that entry is the first of the base list with its triple and some modified tariff has
  the triple; otherwise the base entry itself stands there, so that base tariffs without
  a matching modified tariff are unchanged and keep their positions. After the base list
  come the modified tariffs that match no base entry, one for every triple in the order
  of its first occurrence, and of the modified tariffs that share a triple the last one:
  a later modified tariff replaces an earlier one with its triple instead of being
  appended. When the triples of the modified tariffs are pairwise distinct, the result is
  the list of the claim, with every unmatched modified tariff appended. The arrays of the
  store that exist before the call, the two inputs among them, are the same after it.
\<close>

theorem mergeTariffs_override:
  "length bs \<le> length (mergeTariffs bs ms)
   \<and> (\<forall>i<length bs. mergeTariffs bs ms ! i
         = (if triple (bs ! i) \<in> triple ` set (take i bs) then bs ! i else override (bs ! i) ms))
   \<and> (\<forall>i<length bs. triple (bs ! i) \<notin> triple ` set ms \<longrightarrow> mergeTariffs bs ms ! i = bs ! i)
   \<and> drop (length bs) (mergeTariffs bs ms)
       = lastPerTriple (filter (\<lambda>m. triple m \<notin> triple ` set bs) ms)
   \<and> distinct (map triple (lastPerTriple ms))
   \<and> triple ` set (lastPerTriple ms) = triple ` set ms
   \<and> (\<forall>x \<in> set (lastPerTriple ms). lastWith (triple x) ms = Some x)
   \<and> (distinct (map triple ms) \<longrightarrow> mergeTariffs bs ms = mergeClaimed bs ms)
   \<and> (g < length h \<and> m < length h
        \<longrightarrow> mergeTariffs_heap h g m = (h @ [mergeTariffs (h ! g) (h ! m)], length h))"
proof -
  have same: "mergeTariffs bs ms ! i = bs ! i"
    if "i < length bs" "triple (bs ! i) \<notin> triple ` set ms" for i
    using that by (simp add: nth_mergeTariffs override_unmatched)
  show ?thesis
    using length_mergeTariffs [of bs ms] nth_mergeTariffs [of _ bs ms] same
      drop_mergeTariffs [of bs ms] lastPerTriple_props [of ms]
      mergeClaimed_distinct [of ms bs] mergeTariffs_heap_eq [of g h m]
    by (intro conjI) blast+
qed

theorem mergeTariffs_override_witness:
  "distinct (map triple [steelModified, wheatModified1])
   \<and> mergeTariffs [riceTariff, steelGlobal] [steelModified, wheatModified1]
       = [riceTariff, steelModified, wheatModified1]
   \<and> mergeClaimed [riceTariff, steelGlobal] [steelModified, wheatModified1]
       = [riceTariff, steelModified, wheatModified1]
   \<and> (0::nat) < length [[riceTariff, steelGlobal], [steelModified, wheatModified1]]
   \<and> (1::nat) < length [[riceTariff, steelGlobal], [steelModified, wheatModified1]]
   \<and> mergeTariffs_heap [[riceTariff, steelGlobal], [steelModified, wheatModified1]] 0 1
       = ([[riceTariff, steelGlobal], [steelModified, wheatModified1],
           [riceTariff, steelModified, wheatModified1]], 2)
   \<and> triple ([riceTariff, steelGlobal] ! 0) \<notin> triple ` set [steelModified, wheatModified1]
   \<and> mergeTariffs [riceTariff, steelGlobal] [steelModified, wheatModified1] ! 0 = riceTariff"
  using mergeTariffs_override [of "[riceTariff, steelGlobal]" "[steelModified, wheatModified1]"
      0 "[[riceTariff, steelGlobal], [steelModified, wheatModified1]]" 1]
  by (simp add: sample_triples sample_merge)

text \<open>
  C8 as stated fails: a modified tariff that matches no base entry is not appended when a
  later modified tariff has the same triple.
\<close>

theorem mergeTariffs_appends_all_counterexample:
  "wheatModified1 \<in> set [wheatModified1, wheatModified2]
   \<and> \<not> list_ex (sameTriple wheatModified1) [riceTariff]
   \<and> mergeTariffs [riceTariff] [wheatModified1, wheatModified2] = [riceTariff, wheatModified2]
   \<and> wheatModified1 \<notin> set (mergeTariffs [riceTariff] [wheatModified1, wheatModified2])
   \<and> mergeClaimed [riceTariff] [wheatModified1, wheatModified2]
       = [riceTariff, wheatModified1, wheatModified2]
   \<and> mergeTariffs [riceTariff] [wheatModified1, wheatModified2]
       \<noteq> mergeClaimed [riceTariff] [wheatModified1, wheatModified2]"
proof -
  have ne: "wheatModified1 \<noteq> wheatModified2" "wheatModified1 \<noteq> riceTariff"
    by (simp_all add: wheatModified2_def wheatModified1_def riceTariff_def)
  have c: "mergeClaimed [riceTariff] [wheatModified1, wheatModified2]
       = [riceTariff, wheatModified1, wheatModified2]"
    by (simp add: sample_triples override_def)
  show ?thesis
    using ne by (simp add: sample_merge c sameTriple_triple sample_triples del: mergeClaimed.simps)
qed

section \<open>Lemmas on the requests\<close>

lemma bearer_cases:
  "bearer token = (case token of None \<Rightarrow> [] | Some t \<Rightarrow> if t \<noteq> [] then ''Bearer '' @ t else [])"
  by (simp add: bearer_def truthy_def split: option.splits)

lemma createAuthHeaders_tokenOrEmpty:
  "map_of (createAuthHeaders (tokenOrEmpty token)) ''Authorization'' = Some (bearer token)"
  by (simp add: createAuthHeaders_def tokenOrEmpty_def bearer_def truthy_def split: option.splits)

lemma helperFetch_auth:
  "map_of (req_headers (helperFetch u q m token body)) ''Authorization'' = Some (bearer token)"
  "req_credentials (helperFetch u q m token body) = Some ''include''"
  by (simp_all add: helperFetch_def createAuthHeaders_tokenOrEmpty)

lemma inlineFetch_auth:
  "map_of (req_headers (inlineFetch u m token body)) ''Authorization'' = Some (bearer token)"
  "req_credentials (inlineFetch u m token body) = Some ''include''"
  by (simp_all add: inlineFetch_def)

lemma fetchRequest_credentials:
  "req_credentials (fetchRequest env token s) = Some ''include''"
  by (cases s)
     (simp_all add: helperFetch_auth inlineFetch_auth cartRequest_def trendsRequest_def
        saveHistoryRequest_def historyRequest_def currenciesRequest_def)

lemma fetchRequest_authorization:
  "map_of (req_headers (fetchRequest env token s)) ''Authorization'' = Some (bearer token)"
proof (cases s)
  case (DefsAdd toModified body)
  then show ?thesis
    by (simp add: tokenOrEmpty_def bearer_def truthy_def split: option.splits)
qed (simp_all add: helperFetch_auth inlineFetch_auth cartRequest_def trendsRequest_def
       saveHistoryRequest_def historyRequest_def currenciesRequest_def
       createAuthHeaders_tokenOrEmpty)

text \<open>
  C2 (amended). Every request this client sends to the backend REST API with \<open>fetch\<close> is
  sent with \<open>credentials: 'include'\<close> and carries an Authorization header: \<open>Bearer\<close>
  followed by the access token of the session provider when the session has a non-empty
  access token, and the empty string when there is no session or no token.
\<close>

theorem fetchRequest_bearer:
  "req_credentials (fetchRequest env token s) = Some ''include''
   \<and> (\<forall>t. token = Some t \<and> t \<noteq> []
         \<longrightarrow> map_of (req_headers (fetchRequest env token s)) ''Authorization''
               = Some (''Bearer '' @ t))
   \<and> (token = None \<or> token = Some []
         \<longrightarrow> map_of (req_headers (fetchRequest env token s)) ''Authorization'' = Some [])
   \<and> map_of (createAuthHeaders tk) ''Authorization''
       = Some (if tk \<noteq> [] then ''Bearer '' @ tk else [])"
  using fetchRequest_credentials [of env token s] fetchRequest_authorization [of env token s]
  by (auto simp: bearer_cases createAuthHeaders_def truthy_def)

theorem fetchRequest_bearer_witness:
  "req_credentials (fetchRequest None (Some ''tok'') (CartRemove ''17'')) = Some ''include''
   \<and> map_of (req_headers (fetchRequest None (Some ''tok'') (CartRemove ''17''))) ''Authorization''
       = Some ''Bearer tok''
   \<and> req_url (fetchRequest None (Some ''tok'') (CartRemove ''17''))
       = ''http://localhost:8080/api/export-cart/remove/17''
   \<and> map_of (req_headers (fetchRequest None None (DefsData ''/countries''))) ''Authorization''
       = Some []
   \<and> map_of (createAuthHeaders ''tok'') ''Authorization'' = Some ''Bearer tok''"
  using fetchRequest_bearer [of None "Some ''tok''" "CartRemove ''17''" "''tok''"]
    fetchRequest_bearer [of None None "DefsData ''/countries''" "''tok''"]
  by (simp add: inlineFetch_def getApiUrl_def API_BASE_URL_def endsWith_def Let_def)

text \<open>
  C2 as stated fails: without a session token the Authorization header is the empty
  string, not \<open>Bearer\<close> and a token; and the export of the tariff definitions, a
  navigation, has no Authorization header and no credentials option.
\<close>

theorem authorization_counterexample:
  "map_of (req_headers (fetchRequest None None PageCartCount)) ''Authorization'' = Some []
   \<and> \<not> startsWith [] ''Bearer ''
   \<and> map_of (createAuthHeaders []) ''Authorization'' = Some []
   \<and> map_of (req_headers handleExportCSV) ''Authorization'' = None
   \<and> req_credentials handleExportCSV = None"
  by (simp add: cartRequest_def bearer_def createAuthHeaders_def truthy_def handleExportCSV_def
        navigation_def)

end
